theory Spec2Isabelle
  imports Main "HOL-Library.Char_ord" "HOL-Library.List_Lexorder" "HOL-Library.Finite_Map"
begin

section \<open>Bytes\<close>

text \<open>
  Go byte slices and Go strings are both modelled as lists of 8-bit characters; the numeric
  value of a byte is read with \<open>byte_val\<close>.
\<close>

type_synonym bytes = string

definition byte_val :: "char \<Rightarrow> nat" where
  "byte_val c = of_char c"

section \<open>sanitizeURI\<close>

text \<open>
  \<^verbatim>\<open>bytes.TrimRight(uri, "\x00\x01...\x20")\<close>: the cut set is every byte from 0 to 32,
  so the longest suffix of such bytes is removed.
\<close>

definition TrimRight_ctl :: "bytes \<Rightarrow> bytes" where
  "TrimRight_ctl uri = rev (dropWhile (\<lambda>c. byte_val c \<le> 32) (rev uri))"

text \<open>
  \<^verbatim>\<open>if c < utf8.RuneSelf && 'A' <= c && c <= 'Z' { c = c + 'a' - 'A' }\<close>
\<close>

definition lower_byte :: "char \<Rightarrow> char" where
  "lower_byte c =
     (if byte_val c < 128 \<and> 65 \<le> byte_val c \<and> byte_val c \<le> 90
      then char_of (byte_val c + 97 - 65) else c)"

text \<open>The bytes on which the loop stops without a scheme: \<open>/\<close>, \<open>?\<close>, backslash, \<open>#\<close>.\<close>

definition is_relative_mark :: "char \<Rightarrow> bool" where
  "is_relative_mark c \<longleftrightarrow> c = CHR ''/'' \<or> c = CHR ''?'' \<or> c = CHR 0x5C \<or> c = CHR ''#''"

text \<open>
  The local variables of \<^verbatim>\<open>sanitizeURI\<close>. \<^verbatim>\<open>schemeLastIndex\<close> is \<open>-1\<close> in the
  source until a colon is met; here \<open>None\<close>.
\<close>

record uri_scan =
  firstRuneIndex :: nat
  firstRuneSeen :: bool
  schemeLastIndex :: "nat option"
  buffer :: bytes

definition uri_scan_init :: uri_scan where
  "uri_scan_init = \<lparr>firstRuneIndex = 0, firstRuneSeen = False, schemeLastIndex = None, buffer = []\<rparr>"

text \<open>
  The \<^verbatim>\<open>for i, c := range uri\<close> loop; a \<^verbatim>\<open>break\<close> returns the state without
  visiting the remaining bytes.
\<close>

fun uri_loop :: "nat \<Rightarrow> bytes \<Rightarrow> uri_scan \<Rightarrow> uri_scan" where
  "uri_loop i [] s = s"
| "uri_loop i (c0 # cs) s =
     (if byte_val c0 > 32 then
        (let c = lower_byte c0;
             s1 = s\<lparr>buffer := buffer s @ [c]\<rparr>;
             s2 = (if \<not> firstRuneSeen s1
                   then s1\<lparr>firstRuneIndex := i, firstRuneSeen := True\<rparr> else s1)
         in if c = CHR '':'' then s2\<lparr>schemeLastIndex := Some i\<rparr>
            else if is_relative_mark c then s2
            else uri_loop (Suc i) cs s2)
      else uri_loop (Suc i) cs s)"

text \<open>
  \<^verbatim>\<open>copy(dst[k:], src)\<close> writes \<open>min (len dst - k) (len src)\<close> bytes of \<open>src\<close> into
  \<open>dst\<close> from position \<open>k\<close>.
\<close>

definition copy_at :: "nat \<Rightarrow> bytes \<Rightarrow> bytes \<Rightarrow> bytes" where
  "copy_at k src dst = take k dst @ take (length dst - k) src @ drop (k + length src) dst"

text \<open>
  \<^verbatim>\<open>sanitizeURI\<close> returns the slice \<^verbatim>\<open>uri[schemeStartIndex:]\<close> after the lower-cased
  scheme has been copied over its beginning, together with the scheme (colon included);
  without a scheme it returns \<^verbatim>\<open>uri[firstRuneIndex:]\<close> and the empty string.
\<close>

definition sanitizeURI :: "bytes \<Rightarrow> bytes \<times> string" where
  "sanitizeURI uri0 =
     (let uri = TrimRight_ctl uri0;
          s = uri_loop 0 uri uri_scan_init
      in case schemeLastIndex s of
           Some l \<Rightarrow>
             (let schemeStartIndex = nat (int l - int (length (buffer s)) + 1)
              in (drop schemeStartIndex (copy_at schemeStartIndex (buffer s) uri), buffer s))
         | None \<Rightarrow> (drop (firstRuneIndex s) uri, []))"

text \<open>
  \<^verbatim>\<open>sanitizeURI\<close> writes the lower-cased scheme into the array of its argument. The
  content of the argument slice after the call: the trimmed part with the scheme copied in,
  followed by the bytes that were trimmed.
\<close>

definition sanitizeURI_written :: "bytes \<Rightarrow> bytes" where
  "sanitizeURI_written uri0 =
     (let uri = TrimRight_ctl uri0;
          s = uri_loop 0 uri uri_scan_init
      in case schemeLastIndex s of
           Some l \<Rightarrow>
             (let schemeStartIndex = nat (int l - int (length (buffer s)) + 1)
              in copy_at schemeStartIndex (buffer s) uri @ drop (length uri) uri0)
         | None \<Rightarrow> uri0)"

subsection \<open>What the loop computes, field by field\<close>

text \<open>
  Three list functions describe the final value of the buffer, the position of the colon
  that ended the loop (if any) and the position of the first byte above 32; they are related
  to \<open>uri_loop\<close> by lemma \<open>uri_loop_char\<close> below.
\<close>

fun scan_buf :: "bytes \<Rightarrow> bytes" where
  "scan_buf [] = []"
| "scan_buf (c0 # cs) =
     (if byte_val c0 > 32 then
        (if lower_byte c0 = CHR '':'' \<or> is_relative_mark (lower_byte c0) then [lower_byte c0]
         else lower_byte c0 # scan_buf cs)
      else scan_buf cs)"

fun scan_colon :: "bytes \<Rightarrow> nat option" where
  "scan_colon [] = None"
| "scan_colon (c0 # cs) =
     (if byte_val c0 > 32 then
        (if lower_byte c0 = CHR '':'' then Some 0
         else if is_relative_mark (lower_byte c0) then None
         else map_option Suc (scan_colon cs))
      else map_option Suc (scan_colon cs))"

fun scan_first :: "bytes \<Rightarrow> nat option" where
  "scan_first [] = None"
| "scan_first (c0 # cs) = (if byte_val c0 > 32 then Some 0 else map_option Suc (scan_first cs))"

section \<open>Data of the libraries the program calls\<close>

text \<open>
  \<^verbatim>\<open>net/url\<close>: the fields of \<^verbatim>\<open>url.URL\<close> and \<^verbatim>\<open>url.Userinfo\<close>. A nil \<^verbatim>\<open>*Userinfo\<close> is
  \<open>None\<close>.
\<close>

record Userinfo =
  username :: string
  password :: string
  passwordSet :: bool

record URL =
  Scheme :: string
  Opaque :: string
  User :: "Userinfo option"
  Host :: string
  Path :: string
  RawPath :: string
  OmitHost :: bool
  ForceQuery :: bool
  RawQuery :: string
  Fragment :: string
  RawFragment :: string

text \<open>
  \<^verbatim>\<open>golang.org/x/net/html\<close>: what the program reads from the tokenizer after each
  \<^verbatim>\<open>Next()\<close>: the token type, the tag name (\<^verbatim>\<open>TagName\<close>), the attributes in order
  (\<^verbatim>\<open>TagAttr\<close>: name and unescaped value) and the raw bytes (\<^verbatim>\<open>Raw\<close>) of a text or doctype
  token. A text token also carries the token stream that a new tokenizer yields on its raw
  bytes, which is what the recursive call of \<^verbatim>\<open>sanitizeHTML\<close> inside \<^verbatim>\<open>noscript\<close> reads.

  \<^verbatim>\<open>TagName\<close> returns a slice of the tokenizer's buffer, and the tokenizer goes on using
  that buffer: the bytes under a slice kept from an earlier token can change at a later
  \<^verbatim>\<open>Next()\<close>. The program keeps such slices and reads them again when it meets an end
  tag, so an end tag carries \<open>held\<close>: \<open>held k\<close> is what the slice that \<^verbatim>\<open>TagName\<close> returned
  at token number \<open>k\<close> of the same tokenizer (counted from 0) holds when the end tag is
  read. A tokenizer that never touched its buffer again would have the name of token \<open>k\<close>
  there.
\<close>

datatype token =
    StartTagToken bytes "(bytes \<times> bytes) list"
  | SelfClosingTagToken bytes "(bytes \<times> bytes) list"
  | EndTagToken bytes "nat \<Rightarrow> bytes"
  | TextToken bytes "token list"
  | CommentToken
  | DoctypeToken bytes
  | ErrorToken

text \<open>\<^verbatim>\<open>golang.org/x/text/encoding\<close>: \<^verbatim>\<open>encoding.Nop\<close> or any other encoding, by a number.\<close>

datatype encoding = Nop | Encoding nat

text \<open>
  The functions of the standard library and of the two \<^verbatim>\<open>golang.org/x\<close> packages that the
  program calls are parameters of the model, collected in one record. An error result is
  \<open>Inl\<close> with the message.
  \<^item> \<open>hmac_sha256 key msg\<close>: the HMAC-SHA256 digest;
  \<^item> \<open>url_Parse\<close>, \<open>url_ResolveReference base ref\<close>, \<open>url_String\<close>, \<open>userinfo_String\<close>,
    \<open>url_QueryEscape\<close>: \<^verbatim>\<open>net/url\<close>;
  \<^item> \<open>mime_ParseMediaType\<close> (media type, parameters, error) and \<open>mime_FormatMediaType\<close>:
    \<^verbatim>\<open>mime\<close>; a nil parameter map is the empty map;
  \<^item> \<open>unicode_ToLower\<close>: \<^verbatim>\<open>bytes.Map(unicode.ToLower, s)\<close>, the branch of \<^verbatim>\<open>bytes.ToLower\<close>
    and \<^verbatim>\<open>strings.ToLower\<close> for input that is not all ASCII;
  \<^item> \<open>strings_EqualFold\<close>; \<open>filepath_Base\<close>;
  \<^item> \<open>html_Tokenizer\<close>: the token stream of a document;
  \<^item> \<open>template_attr\<close> and \<open>template_href\<close>: the text \<^verbatim>\<open>html/template\<close> writes for a string
    value inside a quoted attribute and inside a quoted \<^verbatim>\<open>href\<close>;
  \<^item> \<open>charset_DetermineEncoding body contentType\<close> (encoding and its name) and
    \<open>decoder_Bytes\<close>: \<^verbatim>\<open>golang.org/x/net/html/charset\<close> and the decoder of an encoding.
\<close>

record stdlib =
  hmac_sha256 :: "bytes \<Rightarrow> bytes \<Rightarrow> bytes"
  url_Parse :: "string \<Rightarrow> string + URL"
  url_ResolveReference :: "URL \<Rightarrow> URL \<Rightarrow> URL"
  url_String :: "URL \<Rightarrow> string"
  userinfo_String :: "Userinfo \<Rightarrow> string"
  url_QueryEscape :: "string \<Rightarrow> string"
  mime_ParseMediaType :: "string \<Rightarrow> string \<times> (string, string) fmap \<times> string option"
  mime_FormatMediaType :: "string \<Rightarrow> (string, string) fmap \<Rightarrow> string"
  unicode_ToLower :: "bytes \<Rightarrow> bytes"
  strings_EqualFold :: "string \<Rightarrow> string \<Rightarrow> bool"
  filepath_Base :: "string \<Rightarrow> string"
  html_Tokenizer :: "bytes \<Rightarrow> token list"
  template_attr :: "string \<Rightarrow> string"
  template_href :: "string \<Rightarrow> string"
  charset_DetermineEncoding :: "bytes \<Rightarrow> string \<Rightarrow> encoding \<times> string"
  decoder_Bytes :: "encoding \<Rightarrow> bytes \<Rightarrow> string + bytes"

text \<open>
  \<^verbatim>\<open>bytes.ToLower\<close> and \<^verbatim>\<open>strings.ToLower\<close>: input that is all ASCII is lower-cased byte by
  byte; other input goes through the Unicode mapping.
\<close>

definition ToLower :: "stdlib \<Rightarrow> bytes \<Rightarrow> bytes" where
  "ToLower L s =
     (if list_all (\<lambda>c. byte_val c < 128) s then map lower_byte s else unicode_ToLower L s)"

text \<open>\<^verbatim>\<open>bytes.HasPrefix\<close>, \<^verbatim>\<open>strings.HasSuffix\<close>, \<^verbatim>\<open>bytes.Index\<close>, \<^verbatim>\<open>strings.Contains\<close>.\<close>

definition HasPrefix :: "bytes \<Rightarrow> bytes \<Rightarrow> bool" where
  "HasPrefix s p \<longleftrightarrow> take (length p) s = p"

definition HasSuffix :: "bytes \<Rightarrow> bytes \<Rightarrow> bool" where
  "HasSuffix s p \<longleftrightarrow> length p \<le> length s \<and> drop (length s - length p) s = p"

fun Index_from :: "nat \<Rightarrow> bytes \<Rightarrow> bytes \<Rightarrow> nat option" where
  "Index_from i [] sep = (if sep = [] then Some i else None)"
| "Index_from i (c # cs) sep =
     (if HasPrefix (c # cs) sep then Some i else Index_from (Suc i) cs sep)"

definition Index :: "bytes \<Rightarrow> bytes \<Rightarrow> nat option" where
  "Index s sep = Index_from 0 s sep"

definition Contains :: "string \<Rightarrow> string \<Rightarrow> bool" where
  "Contains s substr \<longleftrightarrow> Index s substr \<noteq> None"

text \<open>
  \<^verbatim>\<open>strings.SplitN(s, sep, 2)\<close> for a separator of one byte: the parts before and after the
  first separator, or \<open>s\<close> alone without one.
\<close>

definition SplitN2 :: "string \<Rightarrow> char \<Rightarrow> string list" where
  "SplitN2 s sep =
     (if sep \<in> set s
      then [takeWhile (\<lambda>c. c \<noteq> sep) s, tl (dropWhile (\<lambda>c. c \<noteq> sep) s)]
      else [s])"

text \<open>\<^verbatim>\<open>html.EscapeString\<close>: the five characters \<open>&\<close>, \<open>'\<close>, \<open><\<close>, \<open>>\<close> and \<open>"\<close> are replaced.\<close>

definition escape_char :: "char \<Rightarrow> string" where
  "escape_char c =
     (if c = CHR ''&'' then ''&amp;''
      else if c = CHR 0x27 then ''&#39;''
      else if c = CHR ''<'' then ''&lt;''
      else if c = CHR ''>'' then ''&gt;''
      else if c = CHR 0x22 then ''&#34;''
      else [c])"

definition EscapeString :: "string \<Rightarrow> string" where
  "EscapeString s = concat (map escape_char s)"

text \<open>\<^verbatim>\<open>inArray\<close> of the source.\<close>

fun inArray :: "bytes \<Rightarrow> bytes list \<Rightarrow> bool" where
  "inArray b [] = False"
| "inArray b (b2 # a) = (if b = b2 then True else inArray b a)"

section \<open>Request signatures: hash and verifyRequestURI\<close>

text \<open>
  Go's \<^verbatim>\<open>encoding/hex\<close> (standard library). \<^verbatim>\<open>EncodeToString\<close> writes two digits of
  \<^verbatim>\<open>"0123456789abcdef"\<close> for each byte, the high nibble first. \<^verbatim>\<open>Decode\<close> reads the
  input two digits at a time, accepts \<open>0-9\<close>, \<open>a-f\<close> and \<open>A-F\<close>, fails with
  \<^verbatim>\<open>InvalidByteError\<close> at the first byte that is no digit and with \<^verbatim>\<open>ErrLength\<close> when the
  input has odd length and only digits.
\<close>

definition hextable :: string where
  "hextable = ''0123456789abcdef''"

definition hex_EncodeToString :: "bytes \<Rightarrow> string" where
  "hex_EncodeToString src =
     concat (map (\<lambda>v. [hextable ! (byte_val v div 16), hextable ! (byte_val v mod 16)]) src)"

definition fromHexChar :: "char \<Rightarrow> nat option" where
  "fromHexChar c =
     (let v = byte_val c in
      if 48 \<le> v \<and> v \<le> 57 then Some (v - 48)
      else if 97 \<le> v \<and> v \<le> 102 then Some (v - 97 + 10)
      else if 65 \<le> v \<and> v \<le> 70 then Some (v - 65 + 10)
      else None)"

datatype hex_error = InvalidByteError char | ErrLength

fun hex_Decode :: "bytes \<Rightarrow> hex_error + bytes" where
  "hex_Decode [] = Inr []"
| "hex_Decode [p] =
     (if fromHexChar p = None then Inl (InvalidByteError p) else Inl ErrLength)"
| "hex_Decode (p # q # rest) =
     (case fromHexChar p of
        None \<Rightarrow> Inl (InvalidByteError p)
      | Some a \<Rightarrow>
          (case fromHexChar q of
             None \<Rightarrow> Inl (InvalidByteError q)
           | Some b \<Rightarrow>
               (case hex_Decode rest of
                  Inl e \<Rightarrow> Inl e
                | Inr d \<Rightarrow> Inr (char_of (a * 16 + b) # d))))"

text \<open>
  HMAC-SHA256 (\<^verbatim>\<open>crypto/hmac\<close>, \<^verbatim>\<open>crypto/sha256\<close>) is a parameter \<open>mac\<close> of the model:
  \<open>mac key msg\<close> is the digest \<^verbatim>\<open>mac.Sum(nil)\<close> after \<^verbatim>\<open>hmac.New(sha256.New, key)\<close> and
  \<^verbatim>\<open>mac.Write(msg)\<close>.
\<close>

type_synonym hmac = "bytes \<Rightarrow> bytes \<Rightarrow> bytes"

definition hash :: "hmac \<Rightarrow> string \<Rightarrow> bytes \<Rightarrow> string" where
  "hash mac msg key = hex_EncodeToString (mac key msg)"

text \<open>
  \<^verbatim>\<open>verifyRequestURI\<close>: the buffer \<open>h\<close> has \<^verbatim>\<open>hex.DecodedLen(len(hashMsg))\<close> bytes and a
  successful \<^verbatim>\<open>hex.Decode\<close> fills all of them; \<^verbatim>\<open>hmac.Equal\<close> is true exactly when both
  slices have the same length and the same bytes.
\<close>

definition verifyRequestURI :: "hmac \<Rightarrow> bytes \<Rightarrow> bytes \<Rightarrow> bytes \<Rightarrow> bool" where
  "verifyRequestURI mac uri hashMsg key =
     (case hex_Decode hashMsg of
        Inl err \<Rightarrow> False
      | Inr h \<Rightarrow> h = mac key uri)"

section \<open>Package contenttype\<close>

record ContentType =
  TopLevelType :: string
  SubType :: string
  Suffix :: string
  Parameters :: "(string, string) fmap"

text \<open>
  A Go \<^verbatim>\<open>map[string]string\<close> is a finite map. \<^verbatim>\<open>m[k]\<close> is the empty string for a key that
  is absent; \<^verbatim>\<open>len(m)\<close> counts the keys.
\<close>

definition map_index :: "(string, string) fmap \<Rightarrow> string \<Rightarrow> string" where
  "map_index m k = (case fmlookup m k of None \<Rightarrow> [] | Some v \<Rightarrow> v)"

definition map_len :: "(string, string) fmap \<Rightarrow> nat" where
  "map_len m = fcard (fmdom m)"

text \<open>
  \<^verbatim>\<open>String\<close>: the media type is assembled from the three fields and handed to
  \<^verbatim>\<open>mime.FormatMediaType\<close> with the parameters.
\<close>

definition mimetype_of :: "ContentType \<Rightarrow> string" where
  "mimetype_of contentType =
     (if Suffix contentType = [] then
        (if SubType contentType = [] then TopLevelType contentType
         else TopLevelType contentType @ ''/'' @ SubType contentType)
      else TopLevelType contentType @ ''/'' @ SubType contentType @ ''+'' @ Suffix contentType)"

definition String :: "stdlib \<Rightarrow> ContentType \<Rightarrow> string" where
  "String L contentType = mime_FormatMediaType L (mimetype_of contentType) (Parameters contentType)"

text \<open>
  \<^verbatim>\<open>Equals\<close>: the three strings and the sizes of the two maps are compared first; then the
  loop over the receiver's parameters compares each value with \<^verbatim>\<open>other.Parameters[k]\<close>.
\<close>

definition Equals :: "ContentType \<Rightarrow> ContentType \<Rightarrow> bool" where
  "Equals contentType other =
     (if TopLevelType contentType \<noteq> TopLevelType other \<or>
         SubType contentType \<noteq> SubType other \<or>
         Suffix contentType \<noteq> Suffix other \<or>
         map_len (Parameters contentType) \<noteq> map_len (Parameters other)
      then False
      else fmpred (\<lambda>k v. \<not> map_index (Parameters other) k \<noteq> v) (Parameters contentType))"

text \<open>
  \<^verbatim>\<open>FilterParameters\<close>: \<^verbatim>\<open>parameters[k]\<close> of a \<^verbatim>\<open>map[string]bool\<close> is false for an absent
  key.
\<close>

definition FilterParameters :: "ContentType \<Rightarrow> (string, bool) fmap \<Rightarrow> ContentType" where
  "FilterParameters contentType parameters =
     contentType\<lparr>Parameters :=
       fmfilter (\<lambda>k. fmlookup parameters k = Some True) (Parameters contentType)\<rparr>"

text \<open>
  \<^verbatim>\<open>ParseContentType\<close> returns a \<^verbatim>\<open>ContentType\<close> and an error (\<open>None\<close> for nil).
\<close>

definition ParseContentType :: "stdlib \<Rightarrow> string \<Rightarrow> ContentType \<times> string option" where
  "ParseContentType L contentType =
     (case mime_ParseMediaType L contentType of
        (mimetype, params, err) \<Rightarrow>
          (case err of
             Some e \<Rightarrow>
               (\<lparr>TopLevelType = [], SubType = [], Suffix = [], Parameters = params\<rparr>, Some e)
           | None \<Rightarrow>
               (let splittedMimetype = SplitN2 (ToLower L mimetype) CHR ''/'' in
                if length splittedMimetype \<le> 1 then
                  (\<lparr>TopLevelType = splittedMimetype ! 0, SubType = [], Suffix = [],
                    Parameters = params\<rparr>, None)
                else
                  (let splittedSubtype = SplitN2 (splittedMimetype ! 1) CHR ''+'' in
                   if length splittedSubtype = 1 then
                     (\<lparr>TopLevelType = splittedMimetype ! 0, SubType = splittedSubtype ! 0,
                       Suffix = [], Parameters = params\<rparr>, None)
                   else
                     (\<lparr>TopLevelType = splittedMimetype ! 0, SubType = splittedSubtype ! 0,
                       Suffix = splittedSubtype ! 1, Parameters = params\<rparr>, None)))))"

text \<open>The filters: a \<^verbatim>\<open>Filter\<close> is a predicate on content types.\<close>

type_synonym Filter = "ContentType \<Rightarrow> bool"

definition NewFilterContains :: "string \<Rightarrow> Filter" where
  "NewFilterContains partialMimeType contentType \<longleftrightarrow>
     Contains (TopLevelType contentType) partialMimeType \<or>
     Contains (SubType contentType) partialMimeType \<or>
     Contains (Suffix contentType) partialMimeType"

definition NewFilterEquals :: "string \<Rightarrow> string \<Rightarrow> string \<Rightarrow> Filter" where
  "NewFilterEquals T S X contentType \<longleftrightarrow>
     ((T \<noteq> ''*'' \<and> T = TopLevelType contentType) \<or> T = ''*'') \<and>
     ((S \<noteq> ''*'' \<and> S = SubType contentType) \<or> S = ''*'') \<and>
     ((X \<noteq> ''*'' \<and> X = Suffix contentType) \<or> X = ''*'')"

fun NewFilterOr :: "Filter list \<Rightarrow> Filter" where
  "NewFilterOr [] contentType = False"
| "NewFilterOr (contentTypeFilter # fs) contentType =
     (if contentTypeFilter contentType then True else NewFilterOr fs contentType)"

subsection \<open>Statements about content types used in the proofs\<close>

text \<open>
  The round trip that the specification asks of a content type \<open>x\<close>: parsing \<open>x.String()\<close>
  succeeds and the result \<^verbatim>\<open>Equals\<close> \<open>x\<close>.
\<close>

definition roundtrips :: "stdlib \<Rightarrow> ContentType \<Rightarrow> bool" where
  "roundtrips L x \<longleftrightarrow>
     snd (ParseContentType L (String L x)) = None \<and>
     Equals (fst (ParseContentType L (String L x))) x"

text \<open>A string of ASCII bytes without upper-case letters.\<close>

definition ascii_lower :: "string \<Rightarrow> bool" where
  "ascii_lower s \<longleftrightarrow> list_all (\<lambda>c. byte_val c < 128 \<and> \<not> (65 \<le> byte_val c \<and> byte_val c \<le> 90)) s"

text \<open>
  The content types that \<^verbatim>\<open>ParseContentType\<close> can produce: the three fields are lower-case
  ASCII, the type holds no slash and the subtype no plus sign.
\<close>

definition canonical :: "ContentType \<Rightarrow> bool" where
  "canonical x \<longleftrightarrow>
     ascii_lower (TopLevelType x) \<and> ascii_lower (SubType x) \<and> ascii_lower (Suffix x) \<and>
     CHR ''/'' \<notin> set (TopLevelType x) \<and> CHR ''+'' \<notin> set (SubType x)"

section \<open>ProxifyURI\<close>

record RequestConfig =
  Key :: "bytes option"
  BaseURL :: URL
  BodyInjected :: bool

text \<open>\<^verbatim>\<open>mergeURIs\<close>: a nil second URL gives the first one back.\<close>

definition mergeURIs :: "stdlib \<Rightarrow> URL \<Rightarrow> URL option \<Rightarrow> URL" where
  "mergeURIs L u1 u2 =
     (case u2 of None \<Rightarrow> u1 | Some u \<Rightarrow> url_ResolveReference L u1 u)"

text \<open>
  The test for a link to the document itself: same scheme, host, path and query, and either
  the base URL has no user information or both have the same.
\<close>

definition same_document :: "stdlib \<Rightarrow> URL \<Rightarrow> URL \<Rightarrow> bool" where
  "same_document L u base \<longleftrightarrow>
     Scheme u = Scheme base \<and>
     (User base = None \<or>
      (User u \<noteq> None \<and> userinfo_String L (the (User u)) = userinfo_String L (the (User base)))) \<and>
     Host u = Host base \<and>
     Path u = Path base \<and>
     RawQuery u = RawQuery base"

text \<open>
  \<^verbatim>\<open>ProxifyURI\<close> returns a string and an error: \<open>Inr\<close> the string when the error is nil,
  \<open>Inl\<close> the error of \<^verbatim>\<open>url.Parse\<close> otherwise.
\<close>

definition ProxifyURI :: "stdlib \<Rightarrow> RequestConfig \<Rightarrow> bytes \<Rightarrow> string + string" where
  "ProxifyURI L rc uri0 =
     (case sanitizeURI uri0 of
        (uri, scheme) \<Rightarrow>
          if scheme = ''javascript:'' then Inr []
          else if scheme = ''data:'' then
            (if HasPrefix uri ''data:image/png'' \<or>
                HasPrefix uri ''data:image/jpeg'' \<or>
                HasPrefix uri ''data:image/pjpeg'' \<or>
                HasPrefix uri ''data:image/gif'' \<or>
                HasPrefix uri ''data:image/webp''
             then Inr uri
             else Inr [])
          else
            (case url_Parse L uri of
               Inl err \<Rightarrow> Inl err
             | Inr u0 \<Rightarrow>
                 (let fragment = (if length (Fragment u0) > 0 then ''#'' @ Fragment u0 else []);
                      u = mergeURIs L (BaseURL rc) (Some (u0\<lparr>Fragment := []\<rparr>))
                  in if same_document L u (BaseURL rc) then Inr fragment
                     else
                       (let mortyUri = url_String L u in
                        case Key rc of
                          None \<Rightarrow> Inr (''./?mortyurl='' @ url_QueryEscape L mortyUri @ fragment)
                        | Some k \<Rightarrow>
                            Inr (''./?mortyhash='' @ hash (hmac_sha256 L) mortyUri k @
                                 ''&mortyurl='' @ url_QueryEscape L mortyUri @ fragment)))))"

text \<open>
  The three forms of URL that the specification allows in the output: a proxy URL
  \<open>./?mortyurl=...\<close>, a fragment \<open>#...\<close> or the empty string, one of the five image
  \<open>data:\<close> URIs.
\<close>

definition allowed_data_image :: "string \<Rightarrow> bool" where
  "allowed_data_image u \<longleftrightarrow>
     HasPrefix u ''data:image/png'' \<or> HasPrefix u ''data:image/jpeg'' \<or>
     HasPrefix u ''data:image/pjpeg'' \<or> HasPrefix u ''data:image/gif'' \<or>
     HasPrefix u ''data:image/webp''"

definition allowed_url :: "string \<Rightarrow> bool" where
  "allowed_url u \<longleftrightarrow>
     HasPrefix u ''./?mortyurl='' \<or> u = [] \<or> HasPrefix u ''#'' \<or> allowed_data_image u"

section \<open>The output of the sanitizers\<close>

text \<open>
  The sanitizers write to an \<^verbatim>\<open>io.Writer\<close>. The model records each write, in order, and
  keeps apart the writes that carry a URL:
  \<^item> \<open>Write b\<close>: the bytes \<open>b\<close>;
  \<^item> \<open>WriteUrlAttr name uri\<close>: \<^verbatim>\<open>Fprintf(out, " %s=\"%s\"", attrName, uri)\<close> of
    \<^verbatim>\<open>sanitizeAttr\<close> for \<open>src\<close>, \<open>href\<close> and \<open>action\<close>;
  \<^item> \<open>WriteStyleAttr name css\<close>: the \<open>style\<close> attribute, whose value is the escaped content
    of the buffer that \<^verbatim>\<open>sanitizeCSS\<close> wrote \<open>css\<close> into;
  \<^item> \<open>WriteCssUri uri\<close>: \<^verbatim>\<open>out.Write([]byte(uri))\<close> of \<^verbatim>\<open>sanitizeCSS\<close>;
  \<^item> \<open>WriteRefresh prefix uri\<close>: the \<open>http-equiv="refresh"\<close> attributes of
    \<^verbatim>\<open>sanitizeMetaTag\<close>;
  \<^item> \<open>WriteFormExt url hash\<close> and \<open>WriteBodyExt url hasKey\<close>: the execution of the
    templates \<^verbatim>\<open>HtmlFormExtension\<close> and \<^verbatim>\<open>HtmlBodyExtension\<close>.
\<close>

datatype chunk =
    Write bytes
  | WriteUrlAttr bytes string
  | WriteStyleAttr bytes "chunk list"
  | WriteCssUri string
  | WriteRefresh bytes string
  | WriteFormExt string string
  | WriteBodyExt string bool

text \<open>The literal \<^verbatim>\<open>HtmlHeadContentType\<close>.\<close>

definition HtmlHeadContentType :: string where
  "HtmlHeadContentType =
     ''<meta http-equiv=\"Content-Type\" content=\"text/html; charset=utf-8\">\<newline>'' @
     ''<meta http-equiv=\"X-UA-Compatible\" content=\"IE=edge\">\<newline>'' @
     ''<meta name=\"referrer\" content=\"no-referrer\">\<newline>''"

text \<open>
  The template \<^verbatim>\<open>HtmlFormExtension\<close>: a hidden input with the URL and, when the hash is
  not empty, a hidden input with the hash.
\<close>

definition HtmlFormExtension :: "stdlib \<Rightarrow> string \<Rightarrow> string \<Rightarrow> string" where
  "HtmlFormExtension L baseURL mortyHash =
     ''<input type=\"hidden\" name=\"mortyurl\" value=\"'' @
     template_attr L baseURL @
     ''\" />'' @
     (if mortyHash \<noteq> [] then
        ''<input type=\"hidden\" name=\"mortyhash\" value=\"'' @
        template_attr L mortyHash @
        ''\" />''
      else [])"


definition HtmlBodyExtension :: "stdlib \<Rightarrow> string \<Rightarrow> bool \<Rightarrow> string" where
  "HtmlBodyExtension L baseURL hasMortyKey =
     ''\<newline>'' @
     ''<input type=\"checkbox\" id=\"mortytoggle\" autocomplete=\"off\" />\<newline>'' @
     ''<div id=\"mortyheader\">\<newline>'' @
     ''  <form method=\"get\">\<newline>'' @
     ''    <label for=\"mortytoggle\">hide</label>\<newline>'' @
     ''    <span><a href=\"/\">Morty Proxy</a></span>\<newline>'' @
     ''    <input type=\"url\" value=\"'' @
     template_attr L baseURL @
     ''\" name=\"mortyurl\" '' @
     (if hasMortyKey then ''readonly=\"true\"'' else []) @
     '' />\<newline>'' @
     ''    This is a <a href=\"https://github.com/friedemannsommer/morty\">prox'' @
     ''ified and sanitized</a> view of the page, visit <a href=\"'' @
     template_href L baseURL @
     ''\" rel=\"noreferrer\">original site</a>.\<newline>'' @
     ''  </form>\<newline>'' @
     ''</div>\<newline>'' @
     ''<style>\<newline>'' @
     ''body{ position: absolute !important; top: 42px !important; left: 0 !im'' @
     ''portant; right: 0 !important; bottom: 0 !important; }\<newline>'' @
     ''#mortyheader { position: fixed; margin: 0; box-sizing: border-box; -we'' @
     ''bkit-box-sizing: border-box; top: 0; left: 0; right: 0; z-index: 21474'' @
     ''83647 !important; font-size: 12px; line-height: normal; border-width: '' @
     ''0px 0px 2px 0; border-style: solid; border-color: #AAAAAA; background:'' @
     '' #FFF; padding: 4px; color: #444; height: 42px; }\<newline>'' @
     ''#mortyheader * { padding: 0; margin: 0; }\<newline>'' @
     ''#mortyheader p { padding: 0 0 0.7em 0; display: block; }\<newline>'' @
     ''#mortyheader a { color: #3498db; font-weight: bold; display: inline; }'' @
     ''\<newline>'' @
     ''#mortyheader label { text-align: right; cursor: pointer; position: fix'' @
     ''ed; right: 4px; top: 4px; display: block; color: #444; }\<newline>'' @
     ''#mortyheader > form > span { font-size: 24px; font-weight: bold; margi'' @
     ''n-right: 20px; margin-left: 20px; }\<newline>'' @
     ''input[type=checkbox]#mortytoggle { display: none; }\<newline>'' @
     ''input[type=checkbox]#mortytoggle:checked ~ div { display: none; visibi'' @
     ''lity: hidden; }\<newline>'' @
     ''#mortyheader input[type=url] { width: 50%; padding: 4px; font-size: 16'' @
     ''px; }\<newline>'' @
     ''</style>\<newline>''"

text \<open>
  The bytes that the recorded writes put on the writer, and the URLs among them: the URLs
  that come from \<^verbatim>\<open>ProxifyURI\<close> (\<open>proxified_urls\<close>) and, in addition, the three links of
  the banner template (\<open>emitted_urls\<close>).
\<close>

fun render :: "stdlib \<Rightarrow> chunk \<Rightarrow> bytes" where
  "render L (Write b) = b"
| "render L (WriteUrlAttr attrName uri) = '' '' @ attrName @ ''=\"'' @ uri @ ''\"''"
| "render L (WriteStyleAttr attrName css) =
     '' '' @ attrName @ ''=\"'' @ EscapeString (concat (map (render L) css)) @ ''\"''"
| "render L (WriteCssUri uri) = uri"
| "render L (WriteRefresh prefix uri) =
     '' http-equiv=\"refresh\" content=\"'' @ prefix @ ''url='' @ uri @ ''\"''"
| "render L (WriteFormExt u h) = HtmlFormExtension L u h"
| "render L (WriteBodyExt u k) = HtmlBodyExtension L u k"

definition render_all :: "stdlib \<Rightarrow> chunk list \<Rightarrow> bytes" where
  "render_all L out = concat (map (render L) out)"

fun proxified_urls :: "chunk \<Rightarrow> string list" where
  "proxified_urls (Write b) = []"
| "proxified_urls (WriteUrlAttr attrName uri) = [uri]"
| "proxified_urls (WriteStyleAttr attrName css) = concat (map proxified_urls css)"
| "proxified_urls (WriteCssUri uri) = [uri]"
| "proxified_urls (WriteRefresh prefix uri) = [uri]"
| "proxified_urls (WriteFormExt u h) = []"
| "proxified_urls (WriteBodyExt u k) = []"


section \<open>sanitizeCSS\<close>

text \<open>
  \<^verbatim>\<open>CssUrlRegexp\<close> is the pattern
  \<^verbatim>\<open>url\((['"]?)[ \t\f]*([\x09\x21\x23-\x26\x28\x2a-\x7E]+)(['"]?)\)?\<close>. All its literals
  and classes are ASCII, so it is matched on bytes. \<open>is_css_space\<close> is the class of the
  second item, \<open>is_css_url_char\<close> the class of the second group.
\<close>

definition is_quote :: "char \<Rightarrow> bool" where
  "is_quote c \<longleftrightarrow> c = CHR 0x27 \<or> c = CHR 0x22"

definition is_css_space :: "char \<Rightarrow> bool" where
  "is_css_space c \<longleftrightarrow> c = CHR 0x20 \<or> c = CHR 0x09 \<or> c = CHR 0x0C"

definition is_css_url_char :: "char \<Rightarrow> bool" where
  "is_css_url_char c \<longleftrightarrow>
     (let v = byte_val c in
      v = 9 \<or> v = 33 \<or> (35 \<le> v \<and> v \<le> 38) \<or> v = 40 \<or> (42 \<le> v \<and> v \<le> 126))"

text \<open>
  A match of the pattern at the beginning of \<open>w\<close>, in the order of preference of Go's
  \<^verbatim>\<open>regexp\<close> (leftmost, each repetition as long as possible, giving back one byte at a
  time): after \<open>url(\<close> an optional quote is taken when there is one; the run of spaces is
  taken as long as possible and shortened until a byte of the second class follows (only a
  tab can be given back to the second group); the second group takes all bytes of its
  class; a quote and a closing parenthesis are taken when they follow. The result is the
  start and the end of the second group and the length of the match. Without the first
  quote the pattern cannot match where taking it fails, as a quote is in neither class.
\<close>

definition match_here :: "bytes \<Rightarrow> (nat \<times> nat \<times> nat) option" where
  "match_here w =
     (if HasPrefix w ''url('' then
        (let r1 = drop 4 w;
             q = (if r1 \<noteq> [] \<and> is_quote (hd r1) then 1 else 0);
             r2 = drop q r1;
             m = length (takeWhile is_css_space r2)
         in case find (\<lambda>k. k < length r2 \<and> is_css_url_char (r2 ! k)) (rev [0..<Suc m]) of
              None \<Rightarrow> None
            | Some k \<Rightarrow>
                (let n = length (takeWhile is_css_url_char (drop k r2));
                     a = 4 + q + k;
                     b = a + n;
                     r3 = drop b w;
                     q2 = (if r3 \<noteq> [] \<and> is_quote (hd r3) then 1 else 0);
                     r4 = drop q2 r3;
                     p = (if r4 \<noteq> [] \<and> hd r4 = CHR '')'' then 1 else 0)
                 in Some (a, b, b + q2 + p)))
      else None)"

text \<open>
  \<^verbatim>\<open>CssUrlRegexp.FindAllSubmatchIndex(css, -1)\<close>: the successive matches that do not
  overlap, each the leftmost one after the end of the one before. Of each match the model
  keeps \<^verbatim>\<open>s[4]\<close> and \<^verbatim>\<open>s[5]\<close>, the bounds of the second group, which is all that
  \<^verbatim>\<open>sanitizeCSS\<close> reads. \<open>skip\<close> counts the bytes of the current match still to pass.
\<close>

fun find_all :: "nat \<Rightarrow> nat \<Rightarrow> bytes \<Rightarrow> (nat \<times> nat) list" where
  "find_all pos skip [] = []"
| "find_all pos skip (c # cs) =
     (if skip > 0 then find_all (Suc pos) (skip - 1) cs
      else
        (case match_here (c # cs) of
           Some (a, b, e) \<Rightarrow> (pos + a, pos + b) # find_all (Suc pos) (e - 1) cs
         | None \<Rightarrow> find_all (Suc pos) 0 cs))"

definition FindAllSubmatchIndex :: "bytes \<Rightarrow> (nat \<times> nat) list" where
  "FindAllSubmatchIndex css = find_all 0 0 css"

text \<open>The slice \<^verbatim>\<open>b[i:j]\<close>, and the array \<open>b\<close> after \<open>new\<close> was written over \<^verbatim>\<open>b[i:j]\<close>.\<close>

definition slice :: "bytes \<Rightarrow> nat \<Rightarrow> nat \<Rightarrow> bytes" where
  "slice b i j = take (j - i) (drop i b)"

definition store_slice :: "bytes \<Rightarrow> nat \<Rightarrow> nat \<Rightarrow> bytes \<Rightarrow> bytes" where
  "store_slice b i j new = take i b @ new @ drop j b"

text \<open>
  The loop of \<^verbatim>\<open>sanitizeCSS\<close> over the matches, with the local variable \<^verbatim>\<open>startIndex\<close>.
  \<^verbatim>\<open>ProxifyURI\<close> is called on the slice \<^verbatim>\<open>css[urlStart:urlEnd]\<close> itself, so the bytes that
  \<^verbatim>\<open>sanitizeURI\<close> writes land in \<open>css\<close>. When \<^verbatim>\<open>ProxifyURI\<close> returns an error nothing is
  written and \<^verbatim>\<open>startIndex\<close> stays.
\<close>

fun sanitizeCSS_loop ::
  "stdlib \<Rightarrow> RequestConfig \<Rightarrow> bytes \<Rightarrow> (nat \<times> nat) list \<Rightarrow> nat \<Rightarrow> chunk list
     \<Rightarrow> nat \<times> bytes \<times> chunk list" where
  "sanitizeCSS_loop L rc css [] startIndex out = (startIndex, css, out)"
| "sanitizeCSS_loop L rc css ((urlStart, urlEnd) # urlSlices) startIndex out =
     (let css1 = store_slice css urlStart urlEnd (sanitizeURI_written (slice css urlStart urlEnd))
      in case ProxifyURI L rc (slice css urlStart urlEnd) of
           Inr uri \<Rightarrow>
             sanitizeCSS_loop L rc css1 urlSlices urlEnd
               (out @ [Write (slice css1 startIndex urlStart), WriteCssUri uri])
         | Inl err \<Rightarrow> sanitizeCSS_loop L rc css1 urlSlices startIndex out)"

definition sanitizeCSS :: "stdlib \<Rightarrow> RequestConfig \<Rightarrow> bytes \<Rightarrow> chunk list" where
  "sanitizeCSS L rc css =
     (let urlSlices = FindAllSubmatchIndex css in
      if urlSlices = [] then [Write css]
      else
        (case sanitizeCSS_loop L rc css urlSlices 0 [] of
           (startIndex, css1, out) \<Rightarrow>
             if startIndex < length css1 then out @ [Write (drop startIndex css1)] else out))"




section \<open>sanitizeAttr\<close>

definition SafeAttributes :: "bytes list" where
  "SafeAttributes =
     [''abbr'', ''accesskey'', ''align'', ''alt'', ''as'', ''autocomplete'', ''charset'',
      ''checked'', ''class'', ''content'', ''contenteditable'', ''contextmenu'', ''dir'',
      ''for'', ''height'', ''hidden'', ''hreflang'', ''id'', ''lang'', ''media'', ''method'',
      ''name'', ''nowrap'', ''placeholder'', ''property'', ''rel'', ''spellcheck'',
      ''tabindex'', ''target'', ''title'', ''translate'', ''type'', ''value'', ''width'']"

text \<open>
  \<^verbatim>\<open>sanitizeAttr\<close>: a safe attribute is written with its escaped value; \<open>src\<close>, \<open>href\<close> and
  \<open>action\<close> are written with the result of \<^verbatim>\<open>ProxifyURI\<close> whenever its error is nil;
  \<open>style\<close> is written with the escaped output of \<^verbatim>\<open>sanitizeCSS\<close>; any other attribute is
  dropped.
\<close>

definition sanitizeAttr ::
  "stdlib \<Rightarrow> RequestConfig \<Rightarrow> bytes \<Rightarrow> bytes \<Rightarrow> bytes \<Rightarrow> chunk list" where
  "sanitizeAttr L rc attrName attrValue escapedAttrValue =
     (if inArray attrName SafeAttributes then
        [Write ('' '' @ attrName @ ''=\"'' @ escapedAttrValue @ ''\"'')]
      else if attrName = ''src'' \<or> attrName = ''href'' \<or> attrName = ''action'' then
        (case ProxifyURI L rc attrValue of
           Inr uri \<Rightarrow> [WriteUrlAttr attrName uri]
         | Inl err \<Rightarrow> [])
      else if attrName = ''style'' then
        [WriteStyleAttr attrName (sanitizeCSS L rc attrValue)]
      else [])"

text \<open>An attribute as \<^verbatim>\<open>sanitizeHTML\<close> collects it: name, value, escaped value.\<close>

type_synonym attr = "bytes \<times> bytes \<times> bytes"

definition sanitizeAttrs :: "stdlib \<Rightarrow> RequestConfig \<Rightarrow> attr list \<Rightarrow> chunk list" where
  "sanitizeAttrs L rc attrs =
     concat (map (\<lambda>(attrName, attrValue, escaped). sanitizeAttr L rc attrName attrValue escaped) attrs)"

text \<open>
  The attributes as the tokenizer gives them, with the escaped value added, and the bytes
  that \<^verbatim>\<open>sanitizeAttr\<close> writes for a list of attributes, one after the other.
\<close>

definition escaped_attrs :: "(bytes \<times> bytes) list \<Rightarrow> attr list" where
  "escaped_attrs tagAttrs =
     map (\<lambda>(attrName, attrValue). (attrName, attrValue, EscapeString attrValue)) tagAttrs"


section \<open>sanitizeHTML\<close>

definition UnsafeElements :: "bytes list" where
  "UnsafeElements = [''applet'', ''canvas'', ''embed'', ''iframe'', ''math'', ''script'', ''svg'']"

definition LinkRelSafeValues :: "bytes list" where
  "LinkRelSafeValues =
     [''alternate'', ''archives'', ''author'', ''copyright'', ''first'', ''help'', ''icon'',
      ''index'', ''last'', ''license'', ''manifest'', ''next'', ''prev'', ''publisher'',
      ''search'', ''shortcut icon'', ''stylesheet'', ''up'']"

definition LinkHttpEquivSafeValues :: "bytes list" where
  "LinkHttpEquivSafeValues = [''date'', ''last-modified'', ''refresh'', ''content-language'']"

text \<open>
  \<^verbatim>\<open>sanitizeLinkTag\<close>: the first loop stops at the first \<open>rel\<close> outside the safe values or
  \<open>as="script"\<close>.
\<close>

fun link_exclude :: "attr list \<Rightarrow> bool" where
  "link_exclude [] = False"
| "link_exclude ((attrName, attrValue, escaped) # attrs) =
     (if attrName = ''rel'' \<and> \<not> inArray attrValue LinkRelSafeValues then True
      else if attrName = ''as'' \<and> attrValue = ''script'' then True
      else link_exclude attrs)"

definition sanitizeLinkTag :: "stdlib \<Rightarrow> RequestConfig \<Rightarrow> attr list \<Rightarrow> chunk list" where
  "sanitizeLinkTag L rc attrs =
     (if \<not> link_exclude attrs
      then [Write ''<link''] @ sanitizeAttrs L rc attrs @ [Write ''>'']
      else [])"

text \<open>
  \<^verbatim>\<open>sanitizeMetaTag\<close>. The first loop keeps the lower-cased \<open>http-equiv\<close> and the \<open>content\<close>
  and returns from the function (\<open>None\<close>) at an \<open>http-equiv\<close> outside the safe values or at
  a \<open>charset\<close> attribute; \<open>meta_attr\<close> is one iteration, on the pair of both variables.
\<close>

definition meta_attr :: "stdlib \<Rightarrow> attr \<Rightarrow> bytes \<times> bytes \<Rightarrow> (bytes \<times> bytes) option" where
  "meta_attr L a hc =
     (case a of
        (attrName, attrValue, escaped) \<Rightarrow>
          (let httpEquiv = (if attrName = ''http-equiv'' then ToLower L attrValue else fst hc) in
           if attrName = ''http-equiv'' \<and> \<not> inArray httpEquiv LinkHttpEquivSafeValues then None
           else
             (let content = (if attrName = ''content'' then attrValue else snd hc) in
              if attrName = ''charset'' then None
              else Some (httpEquiv, content))))"

fun meta_scan :: "stdlib \<Rightarrow> attr list \<Rightarrow> bytes \<times> bytes \<Rightarrow> (bytes \<times> bytes) option" where
  "meta_scan L [] hc = Some hc"
| "meta_scan L (a # attrs) hc =
     (case meta_attr L a hc of
        None \<Rightarrow> None
      | Some hc1 \<Rightarrow> meta_scan L attrs hc1)"

text \<open>
  The URL of a refresh: the content after \<open>url=\<close>, without its quotes when it begins and
  ends with the same quote.
\<close>

definition unquote :: "bytes \<Rightarrow> bytes" where
  "unquote contentUrl =
     (if length contentUrl \<ge> 2 \<and> (hd contentUrl = CHR 0x27 \<or> hd contentUrl = CHR 0x22) \<and>
         hd contentUrl = last contentUrl
      then slice contentUrl 1 (length contentUrl - 1)
      else contentUrl)"

text \<open>
  The result is the list of writes and whether the function panicked. \<open>urlIndex\<close> is found
  in the lower-cased content and used in the content itself: the slice
  \<^verbatim>\<open>content[urlIndex+4:]\<close> panics when \<open>urlIndex + 4\<close> is beyond the length of the content,
  which the Unicode lower-casing of bytes that are not ASCII can bring about. The bytes
  \<open><meta\<close> are written before.
\<close>

definition sanitizeMetaTag :: "stdlib \<Rightarrow> RequestConfig \<Rightarrow> attr list \<Rightarrow> chunk list \<times> bool" where
  "sanitizeMetaTag L rc attrs =
     (case meta_scan L attrs ([], []) of
        None \<Rightarrow> ([], False)
      | Some (httpEquiv, content) \<Rightarrow>
          (case (if httpEquiv = ''refresh'' then Index (ToLower L content) ''url='' else None) of
             Some urlIndex \<Rightarrow>
               (if urlIndex + 4 > length content then ([Write ''<meta''], True)
                else
                  (let contentUrl = unquote (drop (urlIndex + 4) content) in
                   case ProxifyURI L rc contentUrl of
                     Inr uri \<Rightarrow>
                       ([Write ''<meta'', WriteRefresh (take urlIndex content) uri, Write ''>''],
                        False)
                   | Inl err \<Rightarrow> ([Write ''<meta'', Write ''>''], False)))
           | None \<Rightarrow>
               ([Write ''<meta''] @
                (if length httpEquiv > 0
                 then [Write ('' http-equiv=\"'' @ httpEquiv @ ''\"'')] else []) @
                sanitizeAttrs L rc attrs @
                [Write ''>''], False)))"

text \<open>
  An entry of the stack of open unsafe elements. While the stack is empty the program
  pushes a copy of the tag name (\<open>Copied\<close>); while the stack is not empty it pushes the
  slice that \<^verbatim>\<open>TagName\<close> returned, without copying it (\<open>Slice k\<close>, for the token number
  \<open>k\<close>). \<open>entry_bytes held e\<close> is what the entry holds when an end tag with \<open>held\<close> is read.
\<close>

datatype stack_entry = Copied bytes | Slice nat

definition entry_bytes :: "(nat \<Rightarrow> bytes) \<Rightarrow> stack_entry \<Rightarrow> bytes" where
  "entry_bytes held e = (case e of Copied b \<Rightarrow> b | Slice k \<Rightarrow> held k)"

text \<open>
  The three states of the sanitizer, and the variables of \<^verbatim>\<open>sanitizeHTML\<close>: the stack of
  open unsafe elements (the top is the last element), the state, the request configuration
  (shared with the caller through the pointer), the writes so far, whether a panic ended
  the run, and the number of the current token (the calls of \<^verbatim>\<open>Next()\<close> before it).
\<close>

datatype sanitizer_state = StateDefault | StateInStyle | StateInNoscript

record html_run =
  unsafeElements :: "stack_entry list"
  state :: sanitizer_state
  rc :: RequestConfig
  out :: "chunk list"
  panicked :: bool
  pos :: nat

text \<open>
  \<open><base>\<close>: every \<open>href\<close> attribute that \<^verbatim>\<open>url.Parse\<close> accepts replaces the base URL.
\<close>

fun base_href :: "stdlib \<Rightarrow> (bytes \<times> bytes) list \<Rightarrow> RequestConfig \<Rightarrow> RequestConfig" where
  "base_href L [] c = c"
| "base_href L ((attrName, attrValue) # attrs) c =
     base_href L attrs
       (if attrName = ''href'' then
          (case url_Parse L attrValue of
             Inr parsedURI \<Rightarrow> c\<lparr>BaseURL := parsedURI\<rparr>
           | Inl err \<Rightarrow> c)
        else c)"

text \<open>
  \<open><form>\<close>: the URL of the first \<open>action\<close> attribute, merged with the base URL (a URL that
  does not parse is nil); the base URL without an \<open>action\<close>. The attribute value is read
  after \<^verbatim>\<open>sanitizeAttrs\<close> has passed it to \<^verbatim>\<open>ProxifyURI\<close>, so it holds what
  \<^verbatim>\<open>sanitizeURI\<close> wrote into it.
\<close>

fun form_url :: "stdlib \<Rightarrow> RequestConfig \<Rightarrow> attr list \<Rightarrow> URL" where
  "form_url L c [] = BaseURL c"
| "form_url L c ((attrName, attrValue, escaped) # attrs) =
     (if attrName = ''action'' then
        mergeURIs L (BaseURL c)
          (case url_Parse L (sanitizeURI_written attrValue) of
             Inr formURL \<Rightarrow> Some formURL
           | Inl err \<Rightarrow> None)
      else form_url L c attrs)"

definition form_extension :: "stdlib \<Rightarrow> RequestConfig \<Rightarrow> attr list \<Rightarrow> chunk" where
  "form_extension L c attrs =
     (let urlStr = url_String L (form_url L c attrs);
          key = (case Key c of Some k \<Rightarrow> hash (hmac_sha256 L) urlStr k | None \<Rightarrow> [])
      in WriteFormExt urlStr key)"

definition body_extension :: "stdlib \<Rightarrow> RequestConfig \<Rightarrow> chunk" where
  "body_extension L c =
     WriteBodyExt (url_String L (BaseURL c))
       (case Key c of Some k \<Rightarrow> length k > 0 | None \<Rightarrow> False)"

text \<open>
  A start tag or a self-closing tag while no unsafe element is open. A copy of an unsafe
  tag name is pushed unless the tag is self-closing, and nothing is written for it.
\<close>

definition start_tag ::
  "stdlib \<Rightarrow> bool \<Rightarrow> bytes \<Rightarrow> (bytes \<times> bytes) list \<Rightarrow> html_run \<Rightarrow> html_run" where
  "start_tag L selfClosing tag tagAttrs s =
     (if inArray tag UnsafeElements then
        (if \<not> selfClosing then s\<lparr>unsafeElements := unsafeElements s @ [Copied tag]\<rparr> else s)
      else if tag = ''base'' then s\<lparr>rc := base_href L tagAttrs (rc s)\<rparr>
      else if tag = ''noscript'' then s\<lparr>state := StateInNoscript\<rparr>
      else
        (let attrs = escaped_attrs tagAttrs
         in if tag = ''link'' then s\<lparr>out := out s @ sanitizeLinkTag L (rc s) attrs\<rparr>
            else if tag = ''meta'' then
              (case sanitizeMetaTag L (rc s) attrs of
                 (written, panic) \<Rightarrow> s\<lparr>out := out s @ written, panicked := panic\<rparr>)
            else
              s\<lparr>out := out s @
                    [Write (''<'' @ tag)] @
                    sanitizeAttrs L (rc s) attrs @
                    [Write (if selfClosing then '' />'' else ''>'')] @
                    (if tag = ''head'' then [Write HtmlHeadContentType] else []) @
                    (if tag = ''form'' then [form_extension L (rc s) attrs] else []),
                 state := (if \<not> selfClosing \<and> tag = ''style'' then StateInStyle else state s)\<rparr>))"

text \<open>An end tag while no unsafe element is open.\<close>

definition end_tag :: "stdlib \<Rightarrow> bytes \<Rightarrow> html_run \<Rightarrow> html_run" where
  "end_tag L tag s =
     (if tag = ''body'' then
        s\<lparr>out := out s @ [body_extension L (rc s), Write (''</'' @ tag @ ''>'')],
          rc := (rc s)\<lparr>BodyInjected := True\<rparr>\<rparr>
      else if tag = ''style'' then
        s\<lparr>state := StateDefault, out := out s @ [Write (''</'' @ tag @ ''>'')]\<rparr>
      else if tag = ''noscript'' then s\<lparr>state := StateDefault\<rparr>
      else s\<lparr>out := out s @ [Write (''</'' @ tag @ ''>'')]\<rparr>)"

text \<open>
  A token while an unsafe element is open. The name of an unsafe tag is pushed, as the
  slice that \<^verbatim>\<open>TagName\<close> returned, for a start tag and for a self-closing tag alike; an
  end tag pops the top of the stack when the bytes that the top holds now are equal to its
  name; nothing else happens.
\<close>

definition unsafe_step :: "token \<Rightarrow> html_run \<Rightarrow> html_run" where
  "unsafe_step t s =
     (case t of
        StartTagToken tag tagAttrs \<Rightarrow>
          (if inArray tag UnsafeElements
           then s\<lparr>unsafeElements := unsafeElements s @ [Slice (pos s)]\<rparr> else s)
      | SelfClosingTagToken tag tagAttrs \<Rightarrow>
          (if inArray tag UnsafeElements
           then s\<lparr>unsafeElements := unsafeElements s @ [Slice (pos s)]\<rparr> else s)
      | EndTagToken tag held \<Rightarrow>
          (if entry_bytes held (last (unsafeElements s)) = tag
           then s\<lparr>unsafeElements := butlast (unsafeElements s)\<rparr> else s)
      | _ \<Rightarrow> s)"

text \<open>
  A token other than a text token in \<^verbatim>\<open>StateInNoscript\<close>, while no unsafe element is
  open: the cases of the \<^verbatim>\<open>switch token\<close>.
\<close>

definition safe_step :: "stdlib \<Rightarrow> token \<Rightarrow> html_run \<Rightarrow> html_run" where
  "safe_step L t s =
     (case t of
        StartTagToken tag tagAttrs \<Rightarrow> start_tag L False tag tagAttrs s
      | SelfClosingTagToken tag tagAttrs \<Rightarrow> start_tag L True tag tagAttrs s
      | EndTagToken tag held \<Rightarrow> end_tag L tag s
      | TextToken raw sub \<Rightarrow>
          (case state s of
             StateDefault \<Rightarrow> s\<lparr>out := out s @ [Write raw]\<rparr>
           | StateInStyle \<Rightarrow> s\<lparr>out := out s @ sanitizeCSS L (rc s) raw\<rparr>
           | StateInNoscript \<Rightarrow> s)
      | CommentToken \<Rightarrow> s
      | DoctypeToken raw \<Rightarrow> s\<lparr>out := out s @ [Write raw]\<rparr>
      | ErrorToken \<Rightarrow> s)"

definition token_step :: "stdlib \<Rightarrow> token \<Rightarrow> html_run \<Rightarrow> html_run" where
  "token_step L t s = (if unsafeElements s = [] then safe_step L t s else unsafe_step t s)"

text \<open>
  The loop over the tokens; each iteration begins with \<^verbatim>\<open>Next()\<close>, so the token number
  grows by one. An error token (the end of the input included) ends the loop, and so does
  a panic. A text token in the state \<^verbatim>\<open>StateInNoscript\<close>, while no unsafe element is
  open, is sanitized by a recursive call of \<^verbatim>\<open>sanitizeHTML\<close> on its raw bytes, with a
  tokenizer, a stack and a state of its own, on the same configuration and writer.
\<close>

fun sanitizeHTML_loop :: "stdlib \<Rightarrow> token list \<Rightarrow> html_run \<Rightarrow> html_run" where
  "sanitizeHTML_loop L [] s = s"
| "sanitizeHTML_loop L (ErrorToken # ts) s = s"
| "sanitizeHTML_loop L (TextToken raw sub # ts) s =
     (if panicked s then s
      else if unsafeElements s = [] \<and> state s = StateInNoscript then
        (let r = sanitizeHTML_loop L sub
                   (s\<lparr>unsafeElements := [], state := StateDefault, pos := 0\<rparr>)
         in sanitizeHTML_loop L ts
              (s\<lparr>rc := rc r, out := out r, panicked := panicked r, pos := Suc (pos s)\<rparr>))
      else sanitizeHTML_loop L ts ((token_step L (TextToken raw sub) s)\<lparr>pos := Suc (pos s)\<rparr>))"
| "sanitizeHTML_loop L (t # ts) s =
     (if panicked s then s
      else sanitizeHTML_loop L ts ((token_step L t s)\<lparr>pos := Suc (pos s)\<rparr>))"

text \<open>
  \<^verbatim>\<open>sanitizeHTML\<close> on a token stream: the stack is empty and the state is
  \<^verbatim>\<open>StateDefault\<close> at the start; the result is the configuration, the writes and whether
  the run panicked.
\<close>

definition sanitizeHTML_tokens :: "stdlib \<Rightarrow> RequestConfig \<Rightarrow> token list \<Rightarrow> html_run" where
  "sanitizeHTML_tokens L c tokens =
     sanitizeHTML_loop L tokens
       \<lparr>unsafeElements = [], state = StateDefault, rc = c, out = [], panicked = False,
        pos = 0\<rparr>"

definition sanitizeHTML :: "stdlib \<Rightarrow> RequestConfig \<Rightarrow> bytes \<Rightarrow> html_run" where
  "sanitizeHTML L c htmlDoc = sanitizeHTML_tokens L c (html_Tokenizer L htmlDoc)"

subsection \<open>Statements about runs of the sanitizer used in the proofs\<close>

text \<open>
  Every URL among the writes is of an allowed form: the URLs that come from \<^verbatim>\<open>ProxifyURI\<close>
  (\<open>proxified_allowed\<close>), and those together with the links of the banner
  (\<open>emitted_allowed\<close>).
\<close>

definition proxified_allowed :: "chunk list \<Rightarrow> bool" where
  "proxified_allowed written = list_all allowed_url (concat (map proxified_urls written))"


text \<open>The invariant of a run without key: the key stays absent and the URLs written are allowed.\<close>

definition run_ok :: "html_run \<Rightarrow> bool" where
  "run_ok s \<longleftrightarrow> Key (rc s) = None \<and> proxified_allowed (out s)"



section \<open>ProcessUri\<close>

definition MaxRedirectCount :: nat where
  "MaxRedirectCount = 5"

definition AllowedContentTypeFilter :: Filter where
  "AllowedContentTypeFilter =
     NewFilterOr
       [NewFilterEquals ''text'' ''html'' [],
        NewFilterEquals ''application'' ''xhtml'' ''xml'',
        NewFilterEquals ''text'' ''css'' [],
        NewFilterEquals ''image'' ''gif'' [],
        NewFilterEquals ''image'' ''png'' [],
        NewFilterEquals ''image'' ''jpeg'' [],
        NewFilterEquals ''image'' ''pjpeg'' [],
        NewFilterEquals ''image'' ''webp'' [],
        NewFilterEquals ''image'' ''tiff'' [],
        NewFilterEquals ''image'' ''vnd.microsoft.icon'' [],
        NewFilterEquals ''image'' ''bmp'' [],
        NewFilterEquals ''image'' ''x-ms-bmp'' [],
        NewFilterEquals ''image'' ''x-icon'' [],
        NewFilterEquals ''application'' ''font-otf'' [],
        NewFilterEquals ''application'' ''font-ttf'' [],
        NewFilterEquals ''application'' ''font-woff'' [],
        NewFilterEquals ''application'' ''vnd.ms-fontobject'' []]"

definition AllowedContentTypeAttachmentFilter :: Filter where
  "AllowedContentTypeAttachmentFilter =
     NewFilterOr
       [NewFilterEquals ''text'' ''csv'' [],
        NewFilterEquals ''text'' ''tab-separated-values'' [],
        NewFilterEquals ''text'' ''plain'' [],
        NewFilterEquals ''application'' ''json'' [],
        NewFilterEquals ''application'' ''x-latex'' [],
        NewFilterEquals ''application'' ''pdf'' [],
        NewFilterEquals ''application'' ''vnd.oasis.opendocument.text'' [],
        NewFilterEquals ''application'' ''vnd.oasis.opendocument.spreadsheet'' [],
        NewFilterEquals ''application'' ''vnd.oasis.opendocument.presentation'' [],
        NewFilterEquals ''application'' ''vnd.oasis.opendocument.graphics'' [],
        NewFilterEquals ''application'' ''zip'' [],
        NewFilterEquals ''application'' ''gzip'' [],
        NewFilterEquals ''application'' ''x-compressed'' [],
        NewFilterEquals ''application'' ''x-gtar'' [],
        NewFilterEquals ''application'' ''x-compress'' [],
        NewFilterEquals ''application'' ''octet-stream'' []]"

definition AllowedContentTypeParameters :: "(string, bool) fmap" where
  "AllowedContentTypeParameters = fmupd ''charset'' True fmempty"

text \<open>
  The proxy, the client's request as \<^verbatim>\<open>ProcessUri\<close> reads it from the
  \<^verbatim>\<open>fasthttp.RequestCtx\<close>, and the upstream response: its status, its \<open>Location\<close> and
  \<open>Content-Type\<close> headers (\<open>None\<close> when \<^verbatim>\<open>Peek\<close> returns nil) and its body.
\<close>

record Proxy =
  ProxyKey :: "bytes option"
  RequestTimeout :: nat
  FollowRedirect :: bool

record RequestCtx =
  Method :: bytes
  PostBody :: bytes
  ContentDisposition :: "bytes option"

record Response =
  StatusCode :: nat
  Location :: "bytes option"
  ContentTypeHeader :: "bytes option"
  Body :: bytes

datatype fetch_error = ErrTimeout | TransportError string

text \<open>
  The network is a parameter: \<open>upstream k uri\<close> is what \<^verbatim>\<open>CLIENT.DoTimeout\<close> gives for the
  request of \<open>uri\<close> made at redirect count \<open>k\<close>, so that every chain of responses is an
  \<open>upstream\<close>.
\<close>

type_synonym upstream = "nat \<Rightarrow> string \<Rightarrow> fetch_error + Response"

text \<open>
  What the client is served: the landing page with a status and an error
  (\<^verbatim>\<open>serveMainPage\<close>), the exit page (\<^verbatim>\<open>serveExitMortyPage\<close>), a redirect with a rewritten
  \<open>Location\<close>, a body with its content type and \<open>Content-Disposition\<close>, or the writes up
  to a panic of the sanitizer.
\<close>

datatype page_error =
    Err string
  | InvalidResponse nat string
  | ForbiddenContentType string

datatype outcome =
    MainPage nat page_error
  | ExitMortyPage URL
  | RedirectResponse nat string
  | Content string "bytes option" "chunk list"
  | Panic "chunk list"

text \<open>\<^verbatim>\<open>contentDispositionForceAttachment\<close>.\<close>

definition contentDispositionForceAttachment :: "stdlib \<Rightarrow> bytes option \<Rightarrow> URL \<Rightarrow> bytes" where
  "contentDispositionForceAttachment L contentDispositionBytes url =
     (let contentDispositionParams =
            (case contentDispositionBytes of
               Some b \<Rightarrow>
                 (case mime_ParseMediaType L b of
                    (mediatype, params, err) \<Rightarrow> if err \<noteq> None then fmempty else params)
             | None \<Rightarrow> fmempty);
          params1 =
            (if fmlookup contentDispositionParams ''filename'' = None
             then fmupd ''fileName'' (filepath_Base L (Path url)) contentDispositionParams
             else contentDispositionParams)
      in mime_FormatMediaType L ''attachment'' params1)"

text \<open>
  The part of \<^verbatim>\<open>ProcessUri\<close> after a response with status 200: content type policy,
  conversion to UTF-8, and the sanitizer for the media type.
\<close>

definition decode_body ::
  "stdlib \<Rightarrow> ContentType \<Rightarrow> string \<Rightarrow> bytes \<Rightarrow> string + bytes \<times> ContentType" where
  "decode_body L contentType contentTypeString body =
     (if TopLevelType contentType = ''text'' then
        (case charset_DetermineEncoding L body contentTypeString of
           (e, ename) \<Rightarrow>
             (case (if e \<noteq> Nop \<and> \<not> strings_EqualFold L ''utf-8'' ename
                    then decoder_Bytes L e body else Inr body) of
                Inl err \<Rightarrow> Inl err
              | Inr responseBody \<Rightarrow>
                  Inr (responseBody,
                       contentType\<lparr>Parameters :=
                         fmupd ''charset'' ''UTF-8'' (Parameters contentType)\<rparr>)))
      else Inr (body, contentType))"

definition serve_body ::
  "stdlib \<Rightarrow> Proxy \<Rightarrow> URL \<Rightarrow> bytes option \<Rightarrow> ContentType \<Rightarrow> bytes \<Rightarrow> outcome" where
  "serve_body L p parsedURI contentDispositionBytes contentType responseBody =
     (let c = \<lparr>Key = ProxyKey p, BaseURL = parsedURI, BodyInjected = False\<rparr>;
          header = String L contentType
      in if SubType contentType = ''css'' \<and> Suffix contentType = [] then
           Content header None (sanitizeCSS L c responseBody)
         else if SubType contentType = ''html'' \<and> Suffix contentType = [] then
           (let r = sanitizeHTML L c responseBody in
            if panicked r then Panic (out r)
            else Content header None
                   (out r @ (if \<not> BodyInjected (rc r) then [body_extension L (rc r)] else [])))
         else Content header contentDispositionBytes [Write responseBody])"

definition serve_response :: "stdlib \<Rightarrow> Proxy \<Rightarrow> RequestCtx \<Rightarrow> URL \<Rightarrow> Response \<Rightarrow> outcome" where
  "serve_response L p ctx parsedURI resp =
     (case ContentTypeHeader resp of
        None \<Rightarrow> MainPage 503 (Err ''invalid content type'')
      | Some contentTypeString \<Rightarrow>
          (case ParseContentType L contentTypeString of
             (contentType, parseError) \<Rightarrow>
               if parseError \<noteq> None then MainPage 503 (Err ''invalid content type'')
               else if \<not> AllowedContentTypeFilter contentType \<and>
                       \<not> AllowedContentTypeAttachmentFilter contentType
               then MainPage 403 (ForbiddenContentType (url_String L parsedURI))
               else
                 (let contentDispositionBytes =
                        (if \<not> AllowedContentTypeFilter contentType
                         then Some (contentDispositionForceAttachment L
                                      (ContentDisposition ctx) parsedURI)
                         else ContentDisposition ctx);
                      contentType1 =
                        (if SubType contentType = ''xhtml''
                         then contentType\<lparr>TopLevelType := ''text'', SubType := ''html'',
                                Suffix := []\<rparr>
                         else contentType)
                  in case decode_body L contentType1 contentTypeString (Body resp) of
                       Inl err \<Rightarrow> MainPage 503 (Err err)
                     | Inr (responseBody, contentType2) \<Rightarrow>
                         serve_body L p parsedURI contentDispositionBytes
                           (FilterParameters contentType2 AllowedContentTypeParameters)
                           responseBody)))"

text \<open>
  The target of \<^verbatim>\<open>ProcessUri\<close>: the URI is parsed, and parsed again behind \<open>https://\<close> when
  it has no scheme.
\<close>

definition parse_target :: "stdlib \<Rightarrow> string \<Rightarrow> string + string \<times> URL" where
  "parse_target L requestURIStr =
     (case url_Parse L requestURIStr of
        Inl err \<Rightarrow> Inl err
      | Inr parsedURI \<Rightarrow>
          if Scheme parsedURI = [] then
            (case url_Parse L (''https://'' @ requestURIStr) of
               Inl err \<Rightarrow> Inl err
             | Inr parsedURI1 \<Rightarrow> Inr (''https://'' @ requestURIStr, parsedURI1))
          else Inr (requestURIStr, parsedURI))"

definition is_redirect :: "nat \<Rightarrow> bool" where
  "is_redirect status \<longleftrightarrow>
     status = 301 \<or> status = 302 \<or> status = 303 \<or> status = 307 \<or> status = 308"

text \<open>
  One call of \<^verbatim>\<open>ProcessUri\<close> up to its recursive call: the result is either what is
  served (\<open>Done\<close>) or the \<open>Location\<close> of a redirect that a GET request with
  follow-redirect enabled is about to follow or to give up (\<open>Redirected\<close>); with it the
  upstream requests made (none or one).
\<close>

datatype step = Done outcome | Redirected string

definition ProcessUri_step ::
  "stdlib \<Rightarrow> upstream \<Rightarrow> Proxy \<Rightarrow> RequestCtx \<Rightarrow> string \<Rightarrow> nat \<Rightarrow> step \<times> string list" where
  "ProcessUri_step L up p ctx requestURIStr0 redirectCount =
     (case parse_target L requestURIStr0 of
        Inl err \<Rightarrow> (Done (MainPage 500 (Err err)), [])
      | Inr (requestURIStr, parsedURI) \<Rightarrow>
          if (Scheme parsedURI \<noteq> ''http'' \<and> Scheme parsedURI \<noteq> ''https'') \<or>
             HasSuffix (Host parsedURI) ''.onion''
          then (Done (ExitMortyPage parsedURI), [])
          else
            (case up redirectCount requestURIStr of
               Inl ErrTimeout \<Rightarrow> (Done (MainPage 504 (Err ''timeout'')), [requestURIStr])
             | Inl (TransportError err) \<Rightarrow> (Done (MainPage 500 (Err err)), [requestURIStr])
             | Inr resp \<Rightarrow>
                 if StatusCode resp \<noteq> 200 then
                   (case (if is_redirect (StatusCode resp) then Location resp else None) of
                      Some loc \<Rightarrow>
                        if FollowRedirect p \<and> Method ctx = ''GET'' then
                          (Redirected loc, [requestURIStr])
                        else
                          (case ProxifyURI L
                                  \<lparr>Key = ProxyKey p, BaseURL = parsedURI, BodyInjected = False\<rparr>
                                  loc of
                             Inr proxyUri \<Rightarrow>
                               (Done (RedirectResponse (StatusCode resp) proxyUri),
                                [requestURIStr])
                           | Inl err \<Rightarrow>
                               (Done (MainPage (StatusCode resp)
                                        (InvalidResponse (StatusCode resp) requestURIStr)),
                                [requestURIStr]))
                    | None \<Rightarrow>
                        (Done (MainPage (StatusCode resp)
                                 (InvalidResponse (StatusCode resp) requestURIStr)),
                         [requestURIStr]))
                 else (Done (serve_response L p ctx parsedURI resp), [requestURIStr])))"

text \<open>
  \<^verbatim>\<open>ProcessUri\<close>: what the client is served and the upstream requests made, in order. A
  redirect is followed by the recursive call while \<^verbatim>\<open>redirectCount < MaxRedirectCount\<close>;
  otherwise the landing page is served with status 310.
\<close>

function ProcessUri ::
  "stdlib \<Rightarrow> upstream \<Rightarrow> Proxy \<Rightarrow> RequestCtx \<Rightarrow> string \<Rightarrow> nat \<Rightarrow> outcome \<times> string list" where
  "ProcessUri L up p ctx requestURIStr redirectCount =
     (case ProcessUri_step L up p ctx requestURIStr redirectCount of
        (Done served, requests) \<Rightarrow> (served, requests)
      | (Redirected loc, requests) \<Rightarrow>
          if redirectCount < MaxRedirectCount then
            (case ProcessUri L up p ctx loc (redirectCount + 1) of
               (served, later) \<Rightarrow> (served, requests @ later))
          else (MainPage 310 (Err ''too many redirects''), requests))"
  by pat_completeness auto
termination
  by (relation "measure (\<lambda>(L, up, p, ctx, requestURIStr, redirectCount).
        MaxRedirectCount - redirectCount)") auto

section \<open>An instance of the library record for examples\<close>

text \<open>
  The theorems below hold for every library record. To run the model on examples the
  record is instantiated. Of the Go libraries this instance reproduces only what the
  examples need: \<^verbatim>\<open>url.Parse\<close> rejects a reference that begins with a colon (\<open>missing
  protocol scheme\<close>) and splits \<open>http://host/path\<close> into scheme, host and path, and the
  \<^verbatim>\<open>String()\<close> of a URL with scheme, host and path only is \<open>scheme://host/path\<close>. Every
  other function is the simplest one of its type and no statement depends on it.
\<close>

definition path_URL :: "string \<Rightarrow> URL" where
  "path_URL p =
     \<lparr>Scheme = [], Opaque = [], User = None, Host = [], Path = p, RawPath = [],
      OmitHost = False, ForceQuery = False, RawQuery = [], Fragment = [], RawFragment = []\<rparr>"

definition sample_lib :: stdlib where
  "sample_lib =
     \<lparr>hmac_sha256 = (\<lambda>key msg. key @ msg),
      url_Parse =
        (\<lambda>s. if HasPrefix s '':'' then Inl ''missing protocol scheme''
             else if HasPrefix s ''http://'' then
               Inr ((path_URL (dropWhile (\<lambda>c. c \<noteq> CHR ''/'') (drop 7 s)))
                      \<lparr>Scheme := ''http'',
                       Host := takeWhile (\<lambda>c. c \<noteq> CHR ''/'') (drop 7 s)\<rparr>)
             else Inr (path_URL s)),
      url_ResolveReference = (\<lambda>base ref. ref),
      url_String = (\<lambda>u. (if Scheme u = [] then [] else Scheme u @ ''://'') @ Host u @ Path u),
      userinfo_String = username,
      url_QueryEscape = (\<lambda>s. s),
      mime_ParseMediaType = (\<lambda>s. (s, fmempty, None)),
      mime_FormatMediaType = (\<lambda>m ps. m),
      unicode_ToLower = (\<lambda>s. s),
      strings_EqualFold = (\<lambda>a b. map lower_byte a = map lower_byte b),
      filepath_Base = (\<lambda>s. s),
      html_Tokenizer = (\<lambda>b. [TextToken b []]),
      template_attr = EscapeString,
      template_href = EscapeString,
      charset_DetermineEncoding = (\<lambda>body ct. (Nop, [])),
      decoder_Bytes = (\<lambda>e b. Inr b)\<rparr>"

text \<open>The configuration of the tests: no key, the base URL \<open>http://127.0.0.1/\<close>.\<close>

definition sample_rc :: RequestConfig where
  "sample_rc =
     \<lparr>Key = None,
      BaseURL = (path_URL ''/'')\<lparr>Scheme := ''http'', Host := ''127.0.0.1''\<rparr>,
      BodyInjected = False\<rparr>"

text \<open>
  A proxy that follows redirects, a GET request, and an upstream that answers every request
  with a redirect to \<open>http://a/\<close>.
\<close>

definition sample_proxy :: Proxy where
  "sample_proxy = \<lparr>ProxyKey = None, RequestTimeout = 5, FollowRedirect = True\<rparr>"

definition sample_get :: RequestCtx where
  "sample_get = \<lparr>Method = ''GET'', PostBody = [], ContentDisposition = None\<rparr>"

definition redirect_forever :: upstream where
  "redirect_forever k uri =
     Inr \<lparr>StatusCode = 302, Location = Some ''http://a/'', ContentTypeHeader = None, Body = []\<rparr>"

section \<open>Proofs: sanitizeURI\<close>

lemma uri_loop_char:
  "uri_loop i cs s =
     s\<lparr>firstRuneIndex :=
          (if firstRuneSeen s then firstRuneIndex s
           else case scan_first cs of Some k \<Rightarrow> i + k | None \<Rightarrow> firstRuneIndex s),
        firstRuneSeen := (firstRuneSeen s \<or> scan_first cs \<noteq> None),
        schemeLastIndex := (case scan_colon cs of Some k \<Rightarrow> Some (i + k) | None \<Rightarrow> schemeLastIndex s),
        buffer := buffer s @ scan_buf cs\<rparr>"
proof (induction cs arbitrary: i s)
  case Nil
  show ?case by simp
next
  case (Cons c0 cs)
  show ?case
    by (simp add: Cons.IH Let_def split: option.splits)
qed

lemma scan_colon_bounds:
  "scan_colon t = Some l \<Longrightarrow> l < length t \<and> length (scan_buf t) \<le> Suc l"
  by (induction t arbitrary: l) (auto split: if_splits)

lemma byte_val_lower: "32 < byte_val c \<Longrightarrow> 32 < byte_val (lower_byte c)"
  by (simp add: lower_byte_def byte_val_def)

lemma lower_byte_idem: "lower_byte (lower_byte c) = lower_byte c"
  by (simp add: lower_byte_def byte_val_def)

lemma scan_prefix_fixed:
  "scan_colon t = Some l \<Longrightarrow>
     scan_colon (scan_buf t @ r) = Some (length (scan_buf t) - 1) \<and>
     scan_buf (scan_buf t @ r) = scan_buf t \<and>
     scan_buf t \<noteq> [] \<and> 32 < byte_val (last (scan_buf t))"
proof (induction t arbitrary: l)
  case Nil
  then show ?case by simp
next
  case (Cons c0 cs)
  then show ?case
    by (auto simp: byte_val_lower lower_byte_idem split: if_splits)
qed

lemma TrimRight_ctl_fixed:
  "t = [] \<or> 32 < byte_val (last t) \<Longrightarrow> TrimRight_ctl t = t"
  by (cases t rule: rev_cases) (auto simp: TrimRight_ctl_def)

lemma TrimRight_ctl_trimmed:
  "TrimRight_ctl u = [] \<or> 32 < byte_val (last (TrimRight_ctl u))"
proof (induction u rule: rev_induct)
  case Nil
  show ?case by (simp add: TrimRight_ctl_def)
next
  case (snoc x xs)
  then show ?case by (auto simp: TrimRight_ctl_def)
qed

lemma sanitizeURI_char:
  "sanitizeURI uri0 =
     (let t = TrimRight_ctl uri0 in
      case scan_colon t of
        Some l \<Rightarrow> (scan_buf t @ drop (Suc l) t, scan_buf t)
      | None \<Rightarrow> (drop (case scan_first t of Some k \<Rightarrow> k | None \<Rightarrow> 0) t, []))"
proof -
  define t where "t = TrimRight_ctl uri0"
  show ?thesis
  proof (cases "scan_colon t")
    case None
    then show ?thesis
      by (simp add: sanitizeURI_def Let_def uri_loop_char uri_scan_init_def t_def [symmetric]
          split: option.splits)
  next
    case (Some l)
    from scan_colon_bounds [OF Some] have b: "l < length t" "length (scan_buf t) \<le> Suc l"
      by simp_all
    define k where "k = Suc l - length (scan_buf t)"
    have k: "nat (int l - int (length (scan_buf t)) + 1) = k"
      using b by (simp add: k_def)
    have "drop k (copy_at k (scan_buf t) t) = scan_buf t @ drop (Suc l) t"
      using b by (simp add: copy_at_def k_def)
    then show ?thesis
      using Some k
      by (simp add: sanitizeURI_def Let_def uri_loop_char uri_scan_init_def t_def [symmetric])
  qed
qed


lemma scan_first_drop:
  "scan_first t = Some k \<Longrightarrow> scan_first (drop k t) = Some 0"
  by (induction t arbitrary: k) (auto split: if_splits)

lemma scan_colon_drop:
  "scan_first t = Some k \<Longrightarrow> scan_colon t = None \<Longrightarrow> scan_colon (drop k t) = None"
  by (induction t arbitrary: k) (auto split: if_splits)

lemma trimmed_drop:
  "t = [] \<or> 32 < byte_val (last t) \<Longrightarrow> drop k t = [] \<or> 32 < byte_val (last (drop k t))"
  by (cases "k < length t") auto

text \<open>
  Claim C8. \<^verbatim>\<open>sanitizeURI\<close> is idempotent on its own output: when it returns the cleaned
  bytes \<open>c\<close> and the scheme \<open>s\<close> for some input, it returns the same \<open>c\<close> and \<open>s\<close> for
  the input \<open>c\<close>.
\<close>

theorem sanitizeURI_idempotent:
  "sanitizeURI u = (c, s) \<Longrightarrow> sanitizeURI c = (c, s)"
proof -
  assume r: "sanitizeURI u = (c, s)"
  define t where "t = TrimRight_ctl u"
  have tt: "t = [] \<or> 32 < byte_val (last t)"
    unfolding t_def by (rule TrimRight_ctl_trimmed)
  show ?thesis
  proof (cases "scan_colon t")
    case (Some l)
    with r have c: "c = scan_buf t @ drop (Suc l) t" and s: "s = scan_buf t"
      by (auto simp: sanitizeURI_char t_def [symmetric])
    from scan_prefix_fixed [OF Some, of "drop (Suc l) t"]
    have p: "scan_colon c = Some (length (scan_buf t) - 1)" "scan_buf c = scan_buf t"
      "scan_buf t \<noteq> []" "32 < byte_val (last (scan_buf t))"
      by (simp_all add: c)
    have "c = [] \<or> 32 < byte_val (last c)"
      using p(3,4) trimmed_drop [OF tt, of "Suc l"]
      by (cases "drop (Suc l) t = []") (auto simp: c)
    then have tc: "TrimRight_ctl c = c" by (rule TrimRight_ctl_fixed)
    have "drop (Suc (length (scan_buf t) - 1)) c = drop (Suc l) t"
      using p(3) by (simp add: c)
    then show ?thesis
      using p(1,2) by (simp add: sanitizeURI_char tc c [symmetric] s)
  next
    case None
    show ?thesis
    proof (cases "scan_first t")
      case n: None
      with None r have c: "c = t" and s: "s = []"
        by (auto simp: sanitizeURI_char t_def [symmetric])
      have "TrimRight_ctl c = c" using tt c TrimRight_ctl_fixed by simp
      then show ?thesis using None n by (simp add: sanitizeURI_char c s)
    next
      case (Some k)
      with None r have c: "c = drop k t" and s: "s = []"
        by (auto simp: sanitizeURI_char t_def [symmetric])
      have "TrimRight_ctl c = c"
        using trimmed_drop [OF tt, of k] TrimRight_ctl_fixed c by simp
      then show ?thesis
        using scan_first_drop [OF Some] scan_colon_drop [OF Some None]
        by (simp add: sanitizeURI_char c s)
    qed
  qed
qed

theorem sanitizeURI_idempotent_witness:
  "sanitizeURI '' Ht  TPs://Example.com/  '' = (''https://Example.com/'', ''https:'') \<and>
   sanitizeURI ''https://Example.com/'' = (''https://Example.com/'', ''https:'')"
proof -
  have h: "sanitizeURI '' Ht  TPs://Example.com/  '' = (''https://Example.com/'', ''https:'')"
    by code_simp
  from sanitizeURI_idempotent [OF h] h show ?thesis by simp
qed

section \<open>Proofs: request signatures\<close>

lemma hextable_digits:
  "list_all (\<lambda>n. fromHexChar (hextable ! n) = Some n) [0..<16]"
  by code_simp

lemma fromHexChar_hextable: "n < 16 \<Longrightarrow> fromHexChar (hextable ! n) = Some n"
  using hextable_digits by (simp add: list_all_iff)

lemma byte_val_less: "byte_val c < 256"
  by (simp add: byte_val_def)

lemma hex_roundtrip: "hex_Decode (hex_EncodeToString bs) = Inr bs"
proof (induction bs)
  case Nil
  show ?case by (simp add: hex_EncodeToString_def)
next
  case (Cons c bs)
  have d: "byte_val c div 16 < 16" using byte_val_less [of c] by simp
  have m: "byte_val c mod 16 < 16" by simp
  have "char_of (byte_val c div 16 * 16 + byte_val c mod 16) = c"
    by (simp add: byte_val_def)
  with Cons show ?case
    by (simp add: hex_EncodeToString_def fromHexChar_hextable [OF d] fromHexChar_hextable [OF m])
qed

text \<open>
  Claim C4. For every URI, hash message and key, \<^verbatim>\<open>verifyRequestURI\<close> returns true exactly
  when the hash message hex-decodes without error to the HMAC of the URI under the key; a
  decode error gives false, a decoded value of another length gives false, and the hash
  that the signing function \<^verbatim>\<open>hash\<close> produces for the same bytes and key always verifies.
\<close>

theorem verifyRequestURI_iff:
  "(verifyRequestURI mac uri hashMsg key \<longleftrightarrow> hex_Decode hashMsg = Inr (mac key uri)) \<and>
   (\<forall>e. hex_Decode hashMsg = Inl e \<longrightarrow> \<not> verifyRequestURI mac uri hashMsg key) \<and>
   (\<forall>h. hex_Decode hashMsg = Inr h \<and> length h \<noteq> length (mac key uri)
        \<longrightarrow> \<not> verifyRequestURI mac uri hashMsg key) \<and>
   verifyRequestURI mac msg (hash mac msg key) key"
  by (auto simp: verifyRequestURI_def hash_def hex_roundtrip split: sum.splits)

theorem verifyRequestURI_iff_witness:
  "hex_Decode ''6b75'' = Inr ''ku'' \<and>
   verifyRequestURI (\<lambda>k m. k @ m) ''u'' ''6b75'' ''k'' \<and>
   hex_Decode ''6b7'' = Inl ErrLength \<and>
   \<not> verifyRequestURI (\<lambda>k m. k @ m) ''u'' ''6b7'' ''k'' \<and>
   hex_Decode ''6b'' = Inr ''k'' \<and>
   \<not> verifyRequestURI (\<lambda>k m. k @ m) ''u'' ''6b'' ''k'' \<and>
   hash (\<lambda>k m. k @ m) ''u'' ''k'' = ''6b75''"
proof -
  have d1: "hex_Decode ''6b75'' = Inr ''ku''" by code_simp
  have d2: "hex_Decode ''6b7'' = Inl ErrLength" by code_simp
  have d3: "hex_Decode ''6b'' = Inr ''k''" by code_simp
  have h: "hash (\<lambda>k m. k @ m) ''u'' ''k'' = ''6b75''" by code_simp
  show ?thesis
    using verifyRequestURI_iff [of "\<lambda>k m. k @ m" "''u''" "''6b75''" "''k''" "''u''"]
      verifyRequestURI_iff [of "\<lambda>k m. k @ m" "''u''" "''6b7''" "''k''" "''u''"]
      verifyRequestURI_iff [of "\<lambda>k m. k @ m" "''u''" "''6b''" "''k''" "''u''"]
      d1 d2 d3 h
    by simp
qed

section \<open>Proofs: package contenttype\<close>

lemma Equals_refl: "Equals x x"
  by (simp add: Equals_def map_index_def fmpred_iff)

lemma SplitN2_none: "sep \<notin> set s \<Longrightarrow> SplitN2 s sep = [s]"
  by (simp add: SplitN2_def)

lemma SplitN2_first: "sep \<notin> set a \<Longrightarrow> SplitN2 (a @ sep # b) sep = [a, b]"
proof -
  assume n: "sep \<notin> set a"
  then have "takeWhile (\<lambda>c. c \<noteq> sep) (a @ sep # b) = a"
    by (induction a) auto
  moreover from n have "dropWhile (\<lambda>c. c \<noteq> sep) (a @ sep # b) = sep # b"
    by (induction a) auto
  ultimately show ?thesis by (simp add: SplitN2_def)
qed

lemma ToLower_ascii_lower: "ascii_lower s \<Longrightarrow> ToLower L s = s"
proof -
  assume a: "ascii_lower s"
  then have "list_all (\<lambda>c. byte_val c < 128) s"
    by (simp add: ascii_lower_def list_all_iff)
  moreover have "map lower_byte s = s"
    using a by (induction s) (auto simp: ascii_lower_def lower_byte_def)
  ultimately show ?thesis by (simp add: ToLower_def)
qed

lemma ascii_lower_append: "ascii_lower (a @ b) \<longleftrightarrow> ascii_lower a \<and> ascii_lower b"
  by (simp add: ascii_lower_def)

lemma ascii_lower_mimetype: "canonical x \<Longrightarrow> ascii_lower (mimetype_of x)"
  by (simp add: canonical_def mimetype_of_def ascii_lower_append) (simp add: ascii_lower_def byte_val_def)

lemma split_mimetype:
  assumes "canonical x"
  shows "(let sm = SplitN2 (mimetype_of x) CHR ''/'' in
          if length sm \<le> 1 then sm ! 0 = TopLevelType x \<and> SubType x = [] \<and> Suffix x = []
          else sm ! 0 = TopLevelType x \<and>
               (let ss = SplitN2 (sm ! 1) CHR ''+'' in
                if length ss = 1 then ss ! 0 = SubType x \<and> Suffix x = []
                else ss ! 0 = SubType x \<and> ss ! 1 = Suffix x))"
proof -
  from assms have t: "CHR ''/'' \<notin> set (TopLevelType x)" and s: "CHR ''+'' \<notin> set (SubType x)"
    by (simp_all add: canonical_def)
  show ?thesis
  proof (cases "Suffix x = []")
    case True
    show ?thesis
    proof (cases "SubType x = []")
      case e: True
      with True t show ?thesis by (simp add: mimetype_of_def SplitN2_none)
    next
      case False
      with True t s show ?thesis
        by (simp add: mimetype_of_def SplitN2_first SplitN2_none)
    qed
  next
    case False
    with t s show ?thesis
      by (simp add: mimetype_of_def SplitN2_first)
  qed
qed

lemma Parse_String:
  assumes c: "canonical x"
    and r: "mime_ParseMediaType L (String L x) = (mimetype_of x, Parameters x, None)"
  shows "ParseContentType L (String L x) = (x, None)"
proof -
  have l: "ToLower L (mimetype_of x) = mimetype_of x"
    using c by (simp add: ToLower_ascii_lower ascii_lower_mimetype)
  from split_mimetype [OF c] show ?thesis
    by (auto simp: ParseContentType_def r l Let_def split: if_splits)
qed

lemma ascii_lower_ToLower:
  "list_all (\<lambda>c. byte_val c < 128) m \<Longrightarrow> ascii_lower (ToLower L m)"
  by (induction m) (auto simp: ToLower_def ascii_lower_def lower_byte_def byte_val_def)

lemma ascii_lower_takeWhile: "ascii_lower s \<Longrightarrow> ascii_lower (takeWhile P s)"
  by (induction s) (auto simp: ascii_lower_def)

lemma ascii_lower_dropWhile: "ascii_lower s \<Longrightarrow> ascii_lower (dropWhile P s)"
  by (induction s) (auto simp: ascii_lower_def)

lemma ascii_lower_tl: "ascii_lower s \<Longrightarrow> ascii_lower (tl s)"
  by (cases s) (auto simp: ascii_lower_def)

lemma notin_takeWhile: "c \<notin> set (takeWhile (\<lambda>d. d \<noteq> c) s)"
  by (induction s) auto

lemma Parse_canonical:
  assumes p: "ParseContentType L s = (ct, None)"
    and a: "list_all (\<lambda>c. byte_val c < 128) (fst (mime_ParseMediaType L s))"
  shows "canonical ct"
proof -
  obtain m ps e where r: "mime_ParseMediaType L s = (m, ps, e)"
    by (cases "mime_ParseMediaType L s") auto
  define lm where "lm = ToLower L m"
  have al: "ascii_lower lm"
    using a r by (simp add: lm_def ascii_lower_ToLower)
  have e: "e = None" using p r by (auto simp: ParseContentType_def split: option.splits)
  show ?thesis
  proof (cases "CHR ''/'' \<in> set lm")
    case False
    with p r e al show ?thesis
      by (auto simp: ParseContentType_def SplitN2_def lm_def [symmetric] canonical_def ascii_lower_def)
  next
    case True
    define sub where "sub = tl (dropWhile (\<lambda>c. c \<noteq> CHR ''/'') lm)"
    have als: "ascii_lower sub"
      using al by (simp add: sub_def ascii_lower_tl ascii_lower_dropWhile)
    show ?thesis
    proof (cases "CHR ''+'' \<in> set sub")
      case f: False
      with True p r e al als show ?thesis
        by (auto simp: ParseContentType_def SplitN2_def lm_def [symmetric] sub_def [symmetric]
            canonical_def ascii_lower_takeWhile notin_takeWhile) (simp add: ascii_lower_def)
    next
      case t: True
      with True p r e al als show ?thesis
        by (auto simp: ParseContentType_def SplitN2_def lm_def [symmetric] sub_def [symmetric]
            canonical_def ascii_lower_takeWhile ascii_lower_tl ascii_lower_dropWhile notin_takeWhile)
    qed
  qed
qed

text \<open>
  Claim C7, at the input where the code departs from it. \<^verbatim>\<open>a.Equals(b)\<close> is to be true
  exactly when all four fields are equal, the parameter maps with the same keys and the same
  value for every key. For \<open>a\<close> with the one parameter \<open>a\<close> of empty value and \<open>b\<close> with the
  one parameter \<open>b = value_b\<close> the maps have the same size, and the loop reads
  \<^verbatim>\<open>other.Parameters["a"]\<close>, which is the empty string for the absent key: \<^verbatim>\<open>Equals\<close>
  returns true although the maps differ.
\<close>

theorem Equals_absent_key:
  "Equals
     \<lparr>TopLevelType = ''a'', SubType = ''b'', Suffix = ''c'',
      Parameters = fmupd ''a'' [] fmempty\<rparr>
     \<lparr>TopLevelType = ''a'', SubType = ''b'', Suffix = ''c'',
      Parameters = fmupd ''b'' ''value_b'' fmempty\<rparr> \<and>
   fmupd ''a'' [] fmempty \<noteq> fmupd ''b'' ''value_b'' (fmempty :: (string, string) fmap)"
proof
  show "Equals
     \<lparr>TopLevelType = ''a'', SubType = ''b'', Suffix = ''c'',
      Parameters = fmupd ''a'' [] fmempty\<rparr>
     \<lparr>TopLevelType = ''a'', SubType = ''b'', Suffix = ''c'',
      Parameters = fmupd ''b'' ''value_b'' fmempty\<rparr>"
    by code_simp
next
  show "fmupd ''a'' [] fmempty \<noteq> fmupd ''b'' ''value_b'' (fmempty :: (string, string) fmap)"
  proof
    assume "fmupd ''a'' [] fmempty = fmupd ''b'' ''value_b'' (fmempty :: (string, string) fmap)"
    then have "fmlookup (fmupd ''a'' [] fmempty) ''a'' =
        fmlookup (fmupd ''b'' ''value_b'' (fmempty :: (string, string) fmap)) ''a''"
      by simp
    then show False by simp
  qed
qed

theorem Equals_absent_key_witness:
  "Equals
     \<lparr>TopLevelType = ''a'', SubType = ''b'', Suffix = ''c'',
      Parameters = fmupd ''a'' [] fmempty\<rparr>
     \<lparr>TopLevelType = ''a'', SubType = ''b'', Suffix = ''c'',
      Parameters = fmupd ''b'' ''value_b'' fmempty\<rparr>"
  using Equals_absent_key by (rule conjunct1)

text \<open>
  Claim C9 as stated fails. A content type with the lower-case type \<open>text\<close>, the lower-case
  subtype \<open>a+b\<close> and the suffix \<open>c\<close> has the same \<^verbatim>\<open>String()\<close> as the one with subtype \<open>a\<close>
  and suffix \<open>b+c\<close>: both hand \<open>text/a+b+c\<close> and no parameters to \<^verbatim>\<open>mime.FormatMediaType\<close>.
  Whatever the mime library answers, the parse of that string cannot \<^verbatim>\<open>Equals\<close> both; in
  Go it is the second one, so the first does not round-trip.
\<close>

theorem roundtrips_plus_counterexample:
  "\<not> (\<exists>L.
      roundtrips L \<lparr>TopLevelType = ''text'', SubType = ''a+b'', Suffix = ''c'',
                    Parameters = fmempty\<rparr> \<and>
      roundtrips L \<lparr>TopLevelType = ''text'', SubType = ''a'', Suffix = ''b+c'',
                    Parameters = fmempty\<rparr>)"
proof
  let ?x1 = "\<lparr>TopLevelType = ''text'', SubType = ''a+b'', Suffix = ''c'',
              Parameters = fmempty\<rparr>"
  let ?x2 = "\<lparr>TopLevelType = ''text'', SubType = ''a'', Suffix = ''b+c'',
              Parameters = fmempty\<rparr>"
  assume "\<exists>L. roundtrips L ?x1 \<and> roundtrips L ?x2"
  then obtain L where r1: "roundtrips L ?x1" and r2: "roundtrips L ?x2" by blast
  have s: "String L ?x1 = String L ?x2"
    by (simp add: String_def mimetype_of_def)
  from r1 have "SubType (fst (ParseContentType L (String L ?x1))) = ''a+b''"
    by (simp add: roundtrips_def Equals_def split: if_splits)
  moreover from r2 have "SubType (fst (ParseContentType L (String L ?x2))) = ''a''"
    by (simp add: roundtrips_def Equals_def split: if_splits)
  ultimately show False using s by simp
qed

text \<open>
  Claim C9, amended. For every content type \<open>x\<close> whose three fields are lower-case ASCII,
  whose type holds no slash and whose subtype holds no plus sign, if the mime library
  returns the media type and the parameters of \<open>x\<close> for \<open>x.String()\<close>, then
  \<^verbatim>\<open>ParseContentType(x.String())\<close> succeeds and returns \<open>x\<close>, which \<^verbatim>\<open>Equals\<close> \<open>x\<close>. Every
  content type that \<^verbatim>\<open>ParseContentType\<close> returns without error for an ASCII media type is of
  that form, so that under the same condition on the library its \<^verbatim>\<open>String()\<close> parses back
  to it.
\<close>

theorem ParseContentType_String:
  "(canonical x \<and>
    mime_ParseMediaType L (String L x) = (mimetype_of x, Parameters x, None) \<longrightarrow>
      ParseContentType L (String L x) = (x, None) \<and> roundtrips L x) \<and>
   (ParseContentType L s = (ct, None) \<and>
    list_all (\<lambda>c. byte_val c < 128) (fst (mime_ParseMediaType L s)) \<longrightarrow>
      canonical ct)"
  by (auto simp: Parse_String Parse_canonical roundtrips_def Equals_refl)

theorem ParseContentType_String_witness:
  "canonical \<lparr>TopLevelType = ''text'', SubType = ''html'', Suffix = [], Parameters = fmempty\<rparr> \<and>
   ParseContentType sample_lib
     (String sample_lib
        \<lparr>TopLevelType = ''text'', SubType = ''html'', Suffix = [], Parameters = fmempty\<rparr>) =
     (\<lparr>TopLevelType = ''text'', SubType = ''html'', Suffix = [], Parameters = fmempty\<rparr>, None) \<and>
   roundtrips sample_lib
     \<lparr>TopLevelType = ''text'', SubType = ''html'', Suffix = [], Parameters = fmempty\<rparr> \<and>
   ParseContentType sample_lib ''text/SVG+xml'' =
     (\<lparr>TopLevelType = ''text'', SubType = ''svg'', Suffix = ''xml'', Parameters = fmempty\<rparr>, None) \<and>
   canonical \<lparr>TopLevelType = ''text'', SubType = ''svg'', Suffix = ''xml'', Parameters = fmempty\<rparr>"
proof -
  let ?x = "\<lparr>TopLevelType = ''text'', SubType = ''html'', Suffix = [], Parameters = fmempty\<rparr>"
  let ?y = "\<lparr>TopLevelType = ''text'', SubType = ''svg'', Suffix = ''xml'', Parameters = fmempty\<rparr>"
  have c: "canonical ?x" by code_simp
  have m: "mime_ParseMediaType sample_lib (String sample_lib ?x) =
      (mimetype_of ?x, Parameters ?x, None)"
    by (simp add: sample_lib_def String_def)
  have p: "ParseContentType sample_lib ''text/SVG+xml'' = (?y, None)"
    by code_simp
  have a: "list_all (\<lambda>c. byte_val c < 128) (fst (mime_ParseMediaType sample_lib ''text/SVG+xml''))"
    by code_simp
  from ParseContentType_String [of ?x sample_lib "''text/SVG+xml''" ?y] c m p a
  show ?thesis by simp
qed

section \<open>Proofs: ProxifyURI, sanitizeAttr and sanitizeCSS\<close>

lemma ProxifyURI_javascript:
  "snd (sanitizeURI u) = ''javascript:'' \<Longrightarrow> ProxifyURI L c u = Inr []"
  by (cases "sanitizeURI u") (simp add: ProxifyURI_def)

lemma ProxifyURI_data:
  "snd (sanitizeURI u) = ''data:'' \<Longrightarrow>
     ProxifyURI L c u =
       (if allowed_data_image (fst (sanitizeURI u)) then Inr (fst (sanitizeURI u)) else Inr [])"
  by (cases "sanitizeURI u") (simp add: ProxifyURI_def allowed_data_image_def)

lemma sanitizeURI_scheme_nonempty:
  "snd (sanitizeURI u) \<noteq> [] \<Longrightarrow> fst (sanitizeURI u) \<noteq> []"
  by (simp add: sanitizeURI_char Let_def split: option.splits)

text \<open>
  Claim C3. When \<^verbatim>\<open>sanitizeURI\<close> returns the scheme \<open>javascript:\<close>, \<^verbatim>\<open>ProxifyURI\<close> returns
  the empty string and no error. When it returns the scheme \<open>data:\<close>, \<^verbatim>\<open>ProxifyURI\<close>
  returns the sanitized bytes exactly when they begin with one of the five image prefixes,
  and the empty string, without error, for every other \<open>data:\<close> URI.
\<close>

theorem ProxifyURI_javascript_data:
  "(snd (sanitizeURI u) = ''javascript:'' \<longrightarrow> ProxifyURI L c u = Inr []) \<and>
   (snd (sanitizeURI u) = ''data:'' \<longrightarrow>
      (ProxifyURI L c u = Inr (fst (sanitizeURI u)) \<longleftrightarrow>
         allowed_data_image (fst (sanitizeURI u))) \<and>
      (\<not> allowed_data_image (fst (sanitizeURI u)) \<longrightarrow> ProxifyURI L c u = Inr []))"
proof (intro conjI impI)
  assume "snd (sanitizeURI u) = ''javascript:''"
  then show "ProxifyURI L c u = Inr []" by (rule ProxifyURI_javascript)
next
  assume d: "snd (sanitizeURI u) = ''data:''"
  then have "fst (sanitizeURI u) \<noteq> []"
    using sanitizeURI_scheme_nonempty [of u] by simp
  then show "ProxifyURI L c u = Inr (fst (sanitizeURI u)) \<longleftrightarrow>
      allowed_data_image (fst (sanitizeURI u))"
    by (simp add: ProxifyURI_data [OF d])
next
  assume d: "snd (sanitizeURI u) = ''data:''" and "\<not> allowed_data_image (fst (sanitizeURI u))"
  then show "ProxifyURI L c u = Inr []" by (simp add: ProxifyURI_data [OF d])
qed

theorem ProxifyURI_javascript_data_witness:
  "sanitizeURI '' JavaScript:alert(1)'' = (''javascript:alert(1)'', ''javascript:'') \<and>
   ProxifyURI sample_lib sample_rc '' JavaScript:alert(1)'' = Inr [] \<and>
   sanitizeURI ''DATA:image/png;base64,AAAA'' = (''data:image/png;base64,AAAA'', ''data:'') \<and>
   ProxifyURI sample_lib sample_rc ''DATA:image/png;base64,AAAA'' = Inr ''data:image/png;base64,AAAA'' \<and>
   sanitizeURI ''data:text/html,x'' = (''data:text/html,x'', ''data:'') \<and>
   ProxifyURI sample_lib sample_rc ''data:text/html,x'' = Inr []"
proof -
  have j: "sanitizeURI '' JavaScript:alert(1)'' = (''javascript:alert(1)'', ''javascript:'')"
    by code_simp
  have p: "sanitizeURI ''DATA:image/png;base64,AAAA'' = (''data:image/png;base64,AAAA'', ''data:'')"
    by code_simp
  have t: "sanitizeURI ''data:text/html,x'' = (''data:text/html,x'', ''data:'')"
    by code_simp
  have ap: "allowed_data_image ''data:image/png;base64,AAAA''"
    by (simp add: allowed_data_image_def HasPrefix_def)
  have at: "\<not> allowed_data_image ''data:text/html,x''"
    by (simp add: allowed_data_image_def HasPrefix_def)
  show ?thesis
    using ProxifyURI_javascript_data [of "'' JavaScript:alert(1)''" sample_lib sample_rc]
      ProxifyURI_javascript_data [of "''DATA:image/png;base64,AAAA''" sample_lib sample_rc]
      ProxifyURI_javascript_data [of "''data:text/html,x''" sample_lib sample_rc]
    by (simp add: j p t ap at)
qed

lemma url_attr_not_safe:
  "attrName = ''src'' \<or> attrName = ''href'' \<or> attrName = ''action'' \<Longrightarrow>
     \<not> inArray attrName SafeAttributes"
  by (elim disjE) (simp_all add: SafeAttributes_def)

text \<open>
  Claim C10. For a \<open>src\<close>, \<open>href\<close> or \<open>action\<close> attribute whose value has the sanitized scheme
  \<open>javascript:\<close>, or is a \<open>data:\<close> URI outside the image prefixes, \<^verbatim>\<open>ProxifyURI\<close> returns
  the empty string with a nil error and \<^verbatim>\<open>sanitizeAttr\<close> writes the attribute with an empty
  value.
\<close>

theorem sanitizeAttr_suppressed_empty_value:
  "(attrName = ''src'' \<or> attrName = ''href'' \<or> attrName = ''action'') \<and>
   (snd (sanitizeURI attrValue) = ''javascript:'' \<or>
    (snd (sanitizeURI attrValue) = ''data:'' \<and>
     \<not> allowed_data_image (fst (sanitizeURI attrValue)))) \<longrightarrow>
     ProxifyURI L c attrValue = Inr [] \<and>
     sanitizeAttr L c attrName attrValue escaped = [WriteUrlAttr attrName []] \<and>
     render_all L (sanitizeAttr L c attrName attrValue escaped) = '' '' @ attrName @ ''=\"\"''"
proof (intro impI, elim conjE)
  assume n: "attrName = ''src'' \<or> attrName = ''href'' \<or> attrName = ''action''"
    and v: "snd (sanitizeURI attrValue) = ''javascript:'' \<or>
      (snd (sanitizeURI attrValue) = ''data:'' \<and>
       \<not> allowed_data_image (fst (sanitizeURI attrValue)))"
  from v have p: "ProxifyURI L c attrValue = Inr []"
    by (auto simp: ProxifyURI_javascript ProxifyURI_data)
  from n p have "sanitizeAttr L c attrName attrValue escaped = [WriteUrlAttr attrName []]"
    using url_attr_not_safe [OF n] by (auto simp: sanitizeAttr_def)
  with p show "ProxifyURI L c attrValue = Inr [] \<and>
     sanitizeAttr L c attrName attrValue escaped = [WriteUrlAttr attrName []] \<and>
     render_all L (sanitizeAttr L c attrName attrValue escaped) = '' '' @ attrName @ ''=\"\"''"
    by (simp add: render_all_def)
qed

theorem sanitizeAttr_suppressed_empty_value_witness:
  "sanitizeURI ''javascript:void(0)'' = (''javascript:void(0)'', ''javascript:'') \<and>
   sanitizeAttr sample_lib sample_rc ''href'' ''javascript:void(0)'' ''javascript:void(0)'' =
     [WriteUrlAttr ''href'' []] \<and>
   render_all sample_lib
     (sanitizeAttr sample_lib sample_rc ''href'' ''javascript:void(0)'' ''javascript:void(0)'') =
     '' href=\"\"''"
proof -
  have j: "sanitizeURI ''javascript:void(0)'' = (''javascript:void(0)'', ''javascript:'')"
    by code_simp
  show ?thesis
    using sanitizeAttr_suppressed_empty_value
      [of "''href''" "''javascript:void(0)''" sample_lib sample_rc "''javascript:void(0)''"]
    by (simp add: j render_all_def)
qed

text \<open>
  Claim C6, at an input where the code departs from it. In the style sheet
  \<open>a{b:url(:x)}\<close> the pattern matches \<open>url(:x)\<close> with the URL \<open>:x\<close> at bytes 8 to 10;
  \<^verbatim>\<open>url.Parse\<close> rejects it, so \<^verbatim>\<open>ProxifyURI\<close> fails. The loop writes nothing and leaves
  \<^verbatim>\<open>startIndex\<close> at 0, and the final write \<^verbatim>\<open>css[startIndex:]\<close> puts the whole input on
  the writer, the bytes of the failed URL included: they are not dropped.
\<close>

theorem sanitizeCSS_failed_url_kept:
  "FindAllSubmatchIndex ''a{b:url(:x)}'' = [(8, 10)] \<and>
   ProxifyURI sample_lib sample_rc '':x'' = Inl ''missing protocol scheme'' \<and>
   render_all sample_lib (sanitizeCSS sample_lib sample_rc ''a{b:url(:x)}'') = ''a{b:url(:x)}''"
  by code_simp

theorem sanitizeCSS_failed_url_kept_witness:
  "render_all sample_lib (sanitizeCSS sample_lib sample_rc ''a{b:url(:x)}'') = ''a{b:url(:x)}''"
  using sanitizeCSS_failed_url_kept by simp

section \<open>Proofs: the matches of the pattern and the rewritten style sheet\<close>









lemma render_all_append [simp]:
  "render_all L (xs @ ys) = render_all L xs @ render_all L ys"
  by (simp add: render_all_def)

lemma render_all_Nil [simp]: "render_all L [] = []"
  by (simp add: render_all_def)

lemma render_all_Cons [simp]: "render_all L (x # xs) = render L x @ render_all L xs"
  by (simp add: render_all_def)







section \<open>Proofs: sanitizeHTML\<close>


lemma loop_unsafe:
  "unsafeElements s \<noteq> [] \<Longrightarrow> \<not> panicked s \<Longrightarrow>
     sanitizeHTML_loop L (t # ts) s =
       (if t = ErrorToken then s
        else sanitizeHTML_loop L ts ((unsafe_step t s)\<lparr>pos := Suc (pos s)\<rparr>))"
  by (cases t) (auto simp: token_step_def)


text \<open>
  Claim C2. While the stack of open unsafe elements is not empty \<^verbatim>\<open>sanitizeHTML\<close> writes
  nothing and keeps configuration and state (\<open>loop_unsafe\<close>, \<open>unsafe_step_fields\<close>), but
  the pushes are not only those of unsafe start tags. With an empty stack a self-closing
  unsafe tag is not pushed; with a non-empty stack it is, and as the slice that
  \<^verbatim>\<open>TagName\<close> returned, not as a copy. For the document
  \<open><canvas><embed/></canvas><p>visible</p>\<close> the stack holds \<open>canvas\<close> and the slice of
  \<open>embed\<close> after the second token. No end tag of \<open>embed\<close> follows, so whatever the slice
  holds when \<open></canvas>\<close> and \<open></p>\<close> are read (\<open>held1\<close>, \<open>held2\<close>), the stack does not
  become empty again and the paragraph after \<open></canvas>\<close> is not written.
\<close>

theorem unsafe_self_closing_pushed:
  "unsafeElements (sanitizeHTML_tokens L c [SelfClosingTagToken ''embed'' a2]) = [] \<and>
   unsafeElements
     (sanitizeHTML_tokens L c [StartTagToken ''canvas'' a1, SelfClosingTagToken ''embed'' a2]) =
     [Copied ''canvas'', Slice 1] \<and>
   unsafeElements
     (sanitizeHTML_tokens L c
        [StartTagToken ''canvas'' a1, SelfClosingTagToken ''embed'' a2,
         EndTagToken ''canvas'' held1, StartTagToken ''p'' a3, TextToken ''visible'' sub,
         EndTagToken ''p'' held2]) \<noteq> [] \<and>
   out
     (sanitizeHTML_tokens L c
        [StartTagToken ''canvas'' a1, SelfClosingTagToken ''embed'' a2,
         EndTagToken ''canvas'' held1, StartTagToken ''p'' a3, TextToken ''visible'' sub,
         EndTagToken ''p'' held2]) = []"
proof -
  have u: "inArray ''canvas'' UnsafeElements" "inArray ''embed'' UnsafeElements"
    "\<not> inArray ''p'' UnsafeElements"
    by (simp_all add: UnsafeElements_def)
  show ?thesis
    by (cases "held1 (Suc 0) = ''canvas''")
      (simp_all add: sanitizeHTML_tokens_def token_step_def safe_step_def start_tag_def
        unsafe_step_def entry_bytes_def u)
qed

theorem unsafe_self_closing_pushed_witness:
  "unsafeElements (sanitizeHTML_tokens sample_lib sample_rc [SelfClosingTagToken ''embed'' []]) = [] \<and>
   unsafeElements
     (sanitizeHTML_tokens sample_lib sample_rc
        [StartTagToken ''canvas'' [], SelfClosingTagToken ''embed'' []]) =
     [Copied ''canvas'', Slice 1] \<and>
   unsafeElements
     (sanitizeHTML_tokens sample_lib sample_rc
        [StartTagToken ''canvas'' [], SelfClosingTagToken ''embed'' [],
         EndTagToken ''canvas'' (\<lambda>k. ''embed''), StartTagToken ''p'' [], TextToken ''visible'' [],
         EndTagToken ''p'' (\<lambda>k. ''embed'')]) \<noteq> [] \<and>
   out
     (sanitizeHTML_tokens sample_lib sample_rc
        [StartTagToken ''canvas'' [], SelfClosingTagToken ''embed'' [],
         EndTagToken ''canvas'' (\<lambda>k. ''embed''), StartTagToken ''p'' [], TextToken ''visible'' [],
         EndTagToken ''p'' (\<lambda>k. ''embed'')]) = []"
  using unsafe_self_closing_pushed [of sample_lib sample_rc "[]" "[]" "\<lambda>k. ''embed''" "[]" "[]"
      "\<lambda>k. ''embed''"] .


lemma proxified_allowed_append [simp]:
  "proxified_allowed (a @ b) \<longleftrightarrow> proxified_allowed a \<and> proxified_allowed b"
  by (simp add: proxified_allowed_def)

lemma proxified_allowed_Nil [simp]: "proxified_allowed []"
  by (simp add: proxified_allowed_def)

lemma proxified_allowed_Write [simp]: "proxified_allowed (Write b # cs) = proxified_allowed cs"
  by (simp add: proxified_allowed_def)















lemma run_ok_pos [simp]: "run_ok (s\<lparr>pos := n\<rparr>) = run_ok s"
  by (simp add: run_ok_def)





























section \<open>Proofs: ProcessUri\<close>

declare ProcessUri.simps [simp del]

lemma ProcessUri_step_requests:
  "length (snd (ProcessUri_step L up p ctx u n)) \<le> 1"
  by (simp add: ProcessUri_step_def split: sum.splits prod.splits fetch_error.splits option.splits)

lemma ProcessUri_requests:
  "length (snd (ProcessUri L up p ctx u n)) \<le> Suc (MaxRedirectCount - n)"
proof (induction L up p ctx u n rule: ProcessUri.induct)
  case (1 L up p ctx u n)
  obtain st reqs where s: "ProcessUri_step L up p ctx u n = (st, reqs)"
    by (cases "ProcessUri_step L up p ctx u n")
  from ProcessUri_step_requests [of L up p ctx u n] s have l: "length reqs \<le> 1" by simp
  show ?case
  proof (cases st)
    case (Done served)
    with s l show ?thesis by (simp add: ProcessUri.simps [of L up p ctx u n])
  next
    case (Redirected loc)
    show ?thesis
    proof (cases "n < MaxRedirectCount")
      case True
      from "1.IH" [OF s [symmetric] Redirected True]
      have "length (snd (ProcessUri L up p ctx loc (n + 1))) \<le> Suc (MaxRedirectCount - (n + 1))" .
      with s l Redirected True show ?thesis
        by (auto simp: ProcessUri.simps [of L up p ctx u n] split: prod.splits)
    next
      case False
      with s l Redirected show ?thesis by (simp add: ProcessUri.simps [of L up p ctx u n])
    qed
  qed
qed

lemma ProcessUri_step_redirect:
  assumes "parse_target L uri = Inr (target, parsedURI)"
    and "\<not> ((Scheme parsedURI \<noteq> ''http'' \<and> Scheme parsedURI \<noteq> ''https'') \<or>
            HasSuffix (Host parsedURI) ''.onion'')"
    and "up n target = Inr resp"
    and "is_redirect (StatusCode resp)"
    and "Location resp = Some loc"
    and "FollowRedirect p" and "Method ctx = ''GET''"
  shows "ProcessUri_step L up p ctx uri n = (Redirected loc, [target])"
proof -
  from assms(4) have "StatusCode resp \<noteq> 200" by (auto simp: is_redirect_def)
  with assms show ?thesis by (simp add: ProcessUri_step_def)
qed

text \<open>
  Claim C5. When the target is an http(s) URL outside \<open>.onion\<close>, the upstream answers with
  status 301, 302, 303, 307 or 308 and a \<open>Location\<close>, the method is GET and follow-redirect
  is enabled, \<^verbatim>\<open>ProcessUri\<close> continues with the \<open>Location\<close> at redirect count \<open>n + 1\<close>
  while \<open>n < 5\<close> and serves the landing page with status 310 otherwise. \<^verbatim>\<open>ProcessUri\<close>
  always terminates (it is a total function, by the measure \<open>5 - n\<close>); from redirect count
  0 it makes at most six upstream requests, the first one and at most five follows.
\<close>

theorem ProcessUri_redirect_bound:
  "(parse_target L uri = Inr (target, parsedURI) \<and>
    \<not> ((Scheme parsedURI \<noteq> ''http'' \<and> Scheme parsedURI \<noteq> ''https'') \<or>
       HasSuffix (Host parsedURI) ''.onion'') \<and>
    up n target = Inr resp \<and> is_redirect (StatusCode resp) \<and> Location resp = Some loc \<and>
    FollowRedirect p \<and> Method ctx = ''GET'' \<longrightarrow>
      (n < MaxRedirectCount \<longrightarrow>
         ProcessUri L up p ctx uri n =
           (fst (ProcessUri L up p ctx loc (n + 1)),
            target # snd (ProcessUri L up p ctx loc (n + 1)))) \<and>
      (\<not> n < MaxRedirectCount \<longrightarrow>
         ProcessUri L up p ctx uri n = (MainPage 310 (Err ''too many redirects''), [target]))) \<and>
   length (snd (ProcessUri L up p ctx uri 0)) \<le> 6 \<and>
   length (snd (ProcessUri L up p ctx uri n)) \<le> Suc (MaxRedirectCount - n)"
proof (intro conjI impI)
  assume a: "parse_target L uri = Inr (target, parsedURI) \<and>
    \<not> ((Scheme parsedURI \<noteq> ''http'' \<and> Scheme parsedURI \<noteq> ''https'') \<or>
       HasSuffix (Host parsedURI) ''.onion'') \<and>
    up n target = Inr resp \<and> is_redirect (StatusCode resp) \<and> Location resp = Some loc \<and>
    FollowRedirect p \<and> Method ctx = ''GET''"
  then have s: "ProcessUri_step L up p ctx uri n = (Redirected loc, [target])"
    using ProcessUri_step_redirect [of L uri target parsedURI up n resp loc p ctx] by blast
  {
    assume "n < MaxRedirectCount"
    with s show "ProcessUri L up p ctx uri n =
           (fst (ProcessUri L up p ctx loc (n + 1)),
            target # snd (ProcessUri L up p ctx loc (n + 1)))"
      by (simp add: ProcessUri.simps [of L up p ctx uri n] split: prod.splits)
  }
  {
    assume "\<not> n < MaxRedirectCount"
    with s show "ProcessUri L up p ctx uri n = (MainPage 310 (Err ''too many redirects''), [target])"
      by (simp add: ProcessUri.simps [of L up p ctx uri n])
  }
next
  show "length (snd (ProcessUri L up p ctx uri 0)) \<le> 6"
    using ProcessUri_requests [of L up p ctx uri 0] by (simp add: MaxRedirectCount_def)
next
  show "length (snd (ProcessUri L up p ctx uri n)) \<le> Suc (MaxRedirectCount - n)"
    by (rule ProcessUri_requests)
qed

theorem ProcessUri_redirect_bound_witness:
  "ProcessUri sample_lib redirect_forever sample_proxy sample_get ''http://a/'' 5 =
     (MainPage 310 (Err ''too many redirects''), [''http://a/'']) \<and>
   ProcessUri sample_lib redirect_forever sample_proxy sample_get ''http://b/'' 0 =
     (MainPage 310 (Err ''too many redirects''),
      [''http://b/'', ''http://a/'', ''http://a/'', ''http://a/'', ''http://a/'', ''http://a/'']) \<and>
   length (snd (ProcessUri sample_lib redirect_forever sample_proxy sample_get ''http://b/'' 0)) \<le> 6"
proof -
  have a: "ProcessUri sample_lib redirect_forever sample_proxy sample_get ''http://a/'' 5 =
     (MainPage 310 (Err ''too many redirects''), [''http://a/''])"
    by code_simp
  have b: "ProcessUri sample_lib redirect_forever sample_proxy sample_get ''http://b/'' 0 =
     (MainPage 310 (Err ''too many redirects''),
      [''http://b/'', ''http://a/'', ''http://a/'', ''http://a/'', ''http://a/'', ''http://a/''])"
    by code_simp
  from ProcessUri_redirect_bound [of sample_lib "''http://b/''" "''http://b/''" _ redirect_forever 0 _ _
      sample_proxy sample_get] a b
  show ?thesis by simp
qed

end
